theory Spec2Isabelle
  imports Main "HOL-Library.Word" "HOL-Library.AList"
begin

chapter \<open>ECE Career Navigator: the recommendation client and the history store\<close>

section \<open>JavaScript strings\<close>

text \<open>
  A JavaScript string is a sequence of 16-bit code units. String literals of the source
  are ASCII and are written with \<open>js\<close>.
\<close>

type_synonym jschar = "16 word"
type_synonym jsstring = "jschar list"

definition js :: "string \<Rightarrow> jsstring" where
  "js s = map of_char s"

text \<open>
  \<open>String.prototype.trim\<close> removes leading and trailing WhiteSpace and LineTerminator
  code units (ECMA-262): TAB, LF, VT, FF, CR, SP, NBSP, the Unicode space separators,
  LS, PS and the byte order mark.
\<close>

definition is_js_space :: "jschar \<Rightarrow> bool" where
  "is_js_space c \<longleftrightarrow>
     c = 0x09 \<or> c = 0x0A \<or> c = 0x0B \<or> c = 0x0C \<or> c = 0x0D \<or> c = 0x20 \<or> c = 0xA0
     \<or> c = 0x1680 \<or> (0x2000 \<le> c \<and> c \<le> 0x200A) \<or> c = 0x2028 \<or> c = 0x2029
     \<or> c = 0x202F \<or> c = 0x205F \<or> c = 0x3000 \<or> c = 0xFEFF"

definition trim :: "jsstring \<Rightarrow> jsstring" where
  "trim s = rev (dropWhile is_js_space (rev (dropWhile is_js_space s)))"

section \<open>JSON\<close>

text \<open>
  The values \<open>JSON.parse\<close> can return. A number is kept as the literal it was read
  from and is written back as that literal, where the engine converts it to a double and
  writes the shortest literal of that double. An object is its list of properties in
  creation order, where the engine enumerates the properties whose names are array
  indices first. For the values without a number and without a property name made of
  digits the two agree; the theorems about what the program writes to storage are about
  such values.
\<close>

datatype json =
    JNull
  | JBool bool
  | JNum jsstring
  | JStr jsstring
  | JArr "json list"
  | JObj "(jsstring \<times> json) list"

text \<open>Reading a property: \<open>None\<close> is JavaScript's \<open>undefined\<close>.\<close>

fun field :: "json \<Rightarrow> jsstring \<Rightarrow> json option" where
  "field (JObj ps) k = map_of ps k"
| "field _ k = None"

subsection \<open>\<open>JSON.parse\<close>\<close>

text \<open>JSON whitespace is space, tab, line feed and carriage return only.\<close>

definition is_ws :: "jschar \<Rightarrow> bool" where
  "is_ws c \<longleftrightarrow> c = 0x20 \<or> c = 0x09 \<or> c = 0x0A \<or> c = 0x0D"

definition skip_ws :: "jsstring \<Rightarrow> jsstring" where
  "skip_ws s = dropWhile is_ws s"

definition is_digit :: "jschar \<Rightarrow> bool" where
  "is_digit c \<longleftrightarrow> 0x30 \<le> c \<and> c \<le> 0x39"

definition hexval :: "jschar \<Rightarrow> nat option" where
  "hexval c =
     (let n = unat c in
      if 48 \<le> n \<and> n \<le> 57 then Some (n - 48)
      else if 97 \<le> n \<and> n \<le> 102 then Some (n - 87)
      else if 65 \<le> n \<and> n \<le> 70 then Some (n - 55)
      else None)"

text \<open>The single-character escapes: \<open>\" \\ \/ \b \f \n \r \t\<close>.\<close>

definition unescape :: "jschar \<Rightarrow> jschar option" where
  "unescape e =
     (if e = 0x22 then Some 0x22
      else if e = 0x5C then Some 0x5C
      else if e = 0x2F then Some 0x2F
      else if e = 0x62 then Some 0x08
      else if e = 0x66 then Some 0x0C
      else if e = 0x6E then Some 0x0A
      else if e = 0x72 then Some 0x0D
      else if e = 0x74 then Some 0x09
      else None)"

definition cons_char :: "jschar \<Rightarrow> (jsstring \<times> jsstring) option \<Rightarrow> (jsstring \<times> jsstring) option" where
  "cons_char c res = (case res of None \<Rightarrow> None | Some (s, r) \<Rightarrow> Some (c # s, r))"

text \<open>
  The characters of a string literal after its opening quote, up to and including the
  closing quote: the string and the rest of the input.
\<close>

fun parse_chars :: "jsstring \<Rightarrow> (jsstring \<times> jsstring) option" where
  "parse_chars [] = None"
| "parse_chars (c # cs) =
     (if c = 0x22 then Some ([], cs)
      else if c = 0x5C then
        (case cs of
           [] \<Rightarrow> None
         | e # r \<Rightarrow>
             if e = 0x75 then
               (case r of
                  h1 # h2 # h3 # h4 # r' \<Rightarrow>
                    (case (hexval h1, hexval h2, hexval h3, hexval h4) of
                       (Some a, Some b, Some c', Some d) \<Rightarrow>
                         cons_char (of_nat (((a * 16 + b) * 16 + c') * 16 + d)) (parse_chars r')
                     | _ \<Rightarrow> None)
                | _ \<Rightarrow> None)
             else
               (case unescape e of
                  None \<Rightarrow> None
                | Some x \<Rightarrow> cons_char x (parse_chars r)))
      else if c < 0x20 then None
      else cons_char c (parse_chars cs))"

text \<open>Numbers: \<open>-? (0 | [1-9][0-9]*) (. [0-9]+)? ([eE] [+-]? [0-9]+)?\<close>.\<close>

definition scan_int :: "jsstring \<Rightarrow> (jsstring \<times> jsstring) option" where
  "scan_int s =
     (case s of
        [] \<Rightarrow> None
      | c # cs \<Rightarrow>
          if c = 0x30 then Some ([c], cs)
          else if is_digit c then Some (c # takeWhile is_digit cs, dropWhile is_digit cs)
          else None)"

definition scan_frac :: "jsstring \<Rightarrow> (jsstring \<times> jsstring) option" where
  "scan_frac s =
     (case s of
        [] \<Rightarrow> Some ([], s)
      | c # cs \<Rightarrow>
          if c = 0x2E then
            (if takeWhile is_digit cs = [] then None
             else Some (c # takeWhile is_digit cs, dropWhile is_digit cs))
          else Some ([], s))"

definition scan_sign :: "jsstring \<Rightarrow> jsstring \<times> jsstring" where
  "scan_sign s =
     (case s of
        [] \<Rightarrow> ([], s)
      | c # cs \<Rightarrow> if c = 0x2B \<or> c = 0x2D then ([c], cs) else ([], s))"

definition scan_exp :: "jsstring \<Rightarrow> (jsstring \<times> jsstring) option" where
  "scan_exp s =
     (case s of
        [] \<Rightarrow> Some ([], s)
      | c # cs \<Rightarrow>
          if c = 0x65 \<or> c = 0x45 then
            (case scan_sign cs of
               (sg, r) \<Rightarrow>
                 if takeWhile is_digit r = [] then None
                 else Some (c # sg @ takeWhile is_digit r, dropWhile is_digit r))
          else Some ([], s))"

definition scan_minus :: "jsstring \<Rightarrow> jsstring \<times> jsstring" where
  "scan_minus s =
     (case s of
        [] \<Rightarrow> ([], s)
      | c # cs \<Rightarrow> if c = 0x2D then ([c], cs) else ([], s))"

definition scan_number :: "jsstring \<Rightarrow> (jsstring \<times> jsstring) option" where
  "scan_number s =
     (case scan_minus s of
        (m, s1) \<Rightarrow>
          (case scan_int s1 of
             None \<Rightarrow> None
           | Some (i, s2) \<Rightarrow>
               (case scan_frac s2 of
                  None \<Rightarrow> None
                | Some (f, s3) \<Rightarrow>
                    (case scan_exp s3 of
                       None \<Rightarrow> None
                     | Some (e, s4) \<Rightarrow> Some (m @ i @ f @ e, s4)))))"

definition strip_prefix :: "jsstring \<Rightarrow> jsstring \<Rightarrow> jsstring option" where
  "strip_prefix p s = (if take (length p) s = p then Some (drop (length p) s) else None)"

text \<open>
  The result of a parser: a value and the rest of the input, a syntax error, or the
  recursion bound reached. The bound is there for the definition only:
  \<open>JSON_parse\<close> passes one that is never reached.
\<close>

datatype 'a parsed = Ok 'a jsstring | SyntaxError | OutOfFuel

text \<open>Duplicate names: the last value wins, at the position of the first.\<close>

definition object_of :: "(jsstring \<times> json) list \<Rightarrow> (jsstring \<times> json) list" where
  "object_of ms = foldl (\<lambda>acc (k, v). AList.update k v acc) [] ms"

fun parse_value :: "nat \<Rightarrow> jsstring \<Rightarrow> json parsed"
  and parse_elements :: "nat \<Rightarrow> jsstring \<Rightarrow> json list parsed"
  and parse_members :: "nat \<Rightarrow> jsstring \<Rightarrow> (jsstring \<times> json) list parsed"
where
  "parse_value 0 s = OutOfFuel"
| "parse_value (Suc n) s =
     (case s of
        [] \<Rightarrow> SyntaxError
      | c # cs \<Rightarrow>
          if c = 0x7B then
            (case skip_ws cs of
               [] \<Rightarrow> SyntaxError
             | d # r \<Rightarrow>
                 if d = 0x7D then Ok (JObj []) r
                 else
                   (case parse_members n (d # r) of
                      Ok ms r' \<Rightarrow> Ok (JObj (object_of ms)) r'
                    | SyntaxError \<Rightarrow> SyntaxError
                    | OutOfFuel \<Rightarrow> OutOfFuel))
          else if c = 0x5B then
            (case skip_ws cs of
               [] \<Rightarrow> SyntaxError
             | d # r \<Rightarrow>
                 if d = 0x5D then Ok (JArr []) r
                 else
                   (case parse_elements n (d # r) of
                      Ok vs r' \<Rightarrow> Ok (JArr vs) r'
                    | SyntaxError \<Rightarrow> SyntaxError
                    | OutOfFuel \<Rightarrow> OutOfFuel))
          else if c = 0x22 then
            (case parse_chars cs of
               None \<Rightarrow> SyntaxError
             | Some (str, r) \<Rightarrow> Ok (JStr str) r)
          else if c = 0x2D \<or> is_digit c then
            (case scan_number s of
               None \<Rightarrow> SyntaxError
             | Some (lit, r) \<Rightarrow> Ok (JNum lit) r)
          else
            (case strip_prefix (js ''true'') s of
               Some r \<Rightarrow> Ok (JBool True) r
             | None \<Rightarrow>
                 (case strip_prefix (js ''false'') s of
                    Some r \<Rightarrow> Ok (JBool False) r
                  | None \<Rightarrow>
                      (case strip_prefix (js ''null'') s of
                         Some r \<Rightarrow> Ok JNull r
                       | None \<Rightarrow> SyntaxError))))"
| "parse_elements 0 s = OutOfFuel"
| "parse_elements (Suc n) s =
     (case parse_value n s of
        Ok v r \<Rightarrow>
          (case skip_ws r of
             [] \<Rightarrow> SyntaxError
           | c # r' \<Rightarrow>
               if c = 0x2C then
                 (case parse_elements n (skip_ws r') of
                    Ok vs r'' \<Rightarrow> Ok (v # vs) r''
                  | SyntaxError \<Rightarrow> SyntaxError
                  | OutOfFuel \<Rightarrow> OutOfFuel)
               else if c = 0x5D then Ok [v] r'
               else SyntaxError)
      | SyntaxError \<Rightarrow> SyntaxError
      | OutOfFuel \<Rightarrow> OutOfFuel)"
| "parse_members 0 s = OutOfFuel"
| "parse_members (Suc n) s =
     (case s of
        [] \<Rightarrow> SyntaxError
      | q # cs \<Rightarrow>
          if q \<noteq> 0x22 then SyntaxError
          else
            (case parse_chars cs of
               None \<Rightarrow> SyntaxError
             | Some (k, r) \<Rightarrow>
                 (case skip_ws r of
                    [] \<Rightarrow> SyntaxError
                  | c # r1 \<Rightarrow>
                      if c \<noteq> 0x3A then SyntaxError
                      else
                        (case parse_value n (skip_ws r1) of
                           Ok v r2 \<Rightarrow>
                             (case skip_ws r2 of
                                [] \<Rightarrow> SyntaxError
                              | d # r3 \<Rightarrow>
                                  if d = 0x2C then
                                    (case parse_members n (skip_ws r3) of
                                       Ok ms r4 \<Rightarrow> Ok ((k, v) # ms) r4
                                     | SyntaxError \<Rightarrow> SyntaxError
                                     | OutOfFuel \<Rightarrow> OutOfFuel)
                                  else if d = 0x7D then Ok [(k, v)] r3
                                  else SyntaxError)
                         | SyntaxError \<Rightarrow> SyntaxError
                         | OutOfFuel \<Rightarrow> OutOfFuel))))"

text \<open>
  \<open>JSON.parse(text)\<close>: the value of the one JSON text that \<open>text\<close> is, or
  \<open>None\<close> for the \<open>SyntaxError\<close> it throws.
\<close>

definition JSON_parse :: "jsstring \<Rightarrow> json option" where
  "JSON_parse s =
     (case parse_value (Suc (2 * length s)) (skip_ws s) of
        Ok v r \<Rightarrow> if skip_ws r = [] then Some v else None
      | SyntaxError \<Rightarrow> None
      | OutOfFuel \<Rightarrow> None)"

subsection \<open>\<open>JSON.stringify\<close>\<close>

definition hexdigit :: "nat \<Rightarrow> jschar" where
  "hexdigit d = of_nat (if d < 10 then 48 + d else 87 + d)"

definition escape_unicode :: "jschar \<Rightarrow> jsstring" where
  "escape_unicode c =
     (let n = unat c in
      [0x5C, 0x75, hexdigit (n div 4096), hexdigit (n div 256 mod 16),
       hexdigit (n div 16 mod 16), hexdigit (n mod 16)])"

definition is_high_surrogate :: "jschar \<Rightarrow> bool" where
  "is_high_surrogate c \<longleftrightarrow> 0xD800 \<le> c \<and> c \<le> 0xDBFF"

definition is_low_surrogate :: "jschar \<Rightarrow> bool" where
  "is_low_surrogate c \<longleftrightarrow> 0xDC00 \<le> c \<and> c \<le> 0xDFFF"

text \<open>
  One code unit that is not part of a surrogate pair, as \<open>QuoteJSONString\<close> writes it.
\<close>

definition quote_unit :: "jschar \<Rightarrow> jsstring" where
  "quote_unit c =
     (if c = 0x08 then [0x5C, 0x62]
      else if c = 0x09 then [0x5C, 0x74]
      else if c = 0x0A then [0x5C, 0x6E]
      else if c = 0x0C then [0x5C, 0x66]
      else if c = 0x0D then [0x5C, 0x72]
      else if c = 0x22 then [0x5C, 0x22]
      else if c = 0x5C then [0x5C, 0x5C]
      else if c < 0x20 \<or> is_high_surrogate c \<or> is_low_surrogate c then escape_unicode c
      else [c])"

fun quote_chars :: "jsstring \<Rightarrow> jsstring" where
  "quote_chars [] = []"
| "quote_chars [c] = quote_unit c"
| "quote_chars (c # d # ds) =
     (if is_high_surrogate c \<and> is_low_surrogate d then c # d # quote_chars ds
      else quote_unit c @ quote_chars (d # ds))"

definition JSON_quote :: "jsstring \<Rightarrow> jsstring" where
  "JSON_quote s = 0x22 # quote_chars s @ [0x22]"

fun JSON_stringify :: "json \<Rightarrow> jsstring"
  and stringify_elements :: "json list \<Rightarrow> jsstring"
  and stringify_members :: "(jsstring \<times> json) list \<Rightarrow> jsstring"
where
  "JSON_stringify JNull = js ''null''"
| "JSON_stringify (JBool b) = (if b then js ''true'' else js ''false'')"
| "JSON_stringify (JNum lit) = lit"
| "JSON_stringify (JStr s) = JSON_quote s"
| "JSON_stringify (JArr vs) = 0x5B # stringify_elements vs @ [0x5D]"
| "JSON_stringify (JObj ps) = 0x7B # stringify_members ps @ [0x7D]"
| "stringify_elements [] = []"
| "stringify_elements [v] = JSON_stringify v"
| "stringify_elements (v # w # vs) = JSON_stringify v @ 0x2C # stringify_elements (w # vs)"
| "stringify_members [] = []"
| "stringify_members [(k, v)] = JSON_quote k @ 0x3A # JSON_stringify v"
| "stringify_members ((k, v) # p # ps) =
     JSON_quote k @ 0x3A # JSON_stringify v @ 0x2C # stringify_members (p # ps)"

subsection \<open>\<open>ToBoolean\<close>\<close>

text \<open>
  \<open>ToBoolean\<close>, as \<open>!v\<close> applies it: \<open>null\<close>, \<open>false\<close>, the empty string and a
  number that is zero are falsy, every array and object is truthy. The number a literal
  \<open>-? i (. f)? (e x)?\<close> denotes is the double nearest to \<open>m * 10 ^ k\<close>, with \<open>m\<close>
  the digits of \<open>i\<close> and \<open>f\<close> and \<open>k = x - length f\<close>; it is zero when \<open>m\<close> is, and
  when \<open>m * 10 ^ k\<close> is at most \<open>2 ^ -1075\<close>, half of the least positive double
  (rounding is to nearest, ties to even; for a literal of more than 20 significant digits
  ECMA-262 lets an engine round from the first 20, and the test here is the exact one).
\<close>

definition digits_value :: "jsstring \<Rightarrow> nat" where
  "digits_value ds = foldl (\<lambda>n d. 10 * n + (unat d - 48)) 0 ds"

definition number_is_zero :: "jsstring \<Rightarrow> bool" where
  "number_is_zero lit =
     (let s = (case lit of [] \<Rightarrow> [] | c # cs \<Rightarrow> if c = 0x2D then cs else lit);
          i = takeWhile is_digit s;
          r = dropWhile is_digit s;
          f = (case r of [] \<Rightarrow> [] | c # cs \<Rightarrow> if c = 0x2E then takeWhile is_digit cs else []);
          e = (case r of [] \<Rightarrow> [] | c # cs \<Rightarrow> if c = 0x2E then dropWhile is_digit cs else r);
          x = (case e of
                 [] \<Rightarrow> 0
               | c # cs \<Rightarrow>
                   (case cs of
                      [] \<Rightarrow> 0
                    | d # ds \<Rightarrow>
                        if d = 0x2D then - int (digits_value ds)
                        else if d = 0x2B then int (digits_value ds)
                        else int (digits_value cs)));
          m = digits_value (i @ f);
          k = x - int (length f)
      in m = 0 \<or> (k < 0 \<and> m * 2 ^ 1075 \<le> 10 ^ nat (- k)))"

fun falsy :: "json \<Rightarrow> bool" where
  "falsy JNull = True"
| "falsy (JBool b) = (\<not> b)"
| "falsy (JNum lit) = number_is_zero lit"
| "falsy (JStr s) = (s = [])"
| "falsy (JArr vs) = False"
| "falsy (JObj ps) = False"

section \<open>The generative-AI provider\<close>

text \<open>
  The request \<open>ai.models.generateContent\<close> is given, and its answer. The provider is
  outside the program: it is a parameter of the two operations, a function from the
  request to the rejection of its promise (\<open>Inl\<close>) or the response (\<open>Inr\<close>).
  \<open>response.text\<close> is a string or \<open>undefined\<close>.
\<close>

datatype Schema =
    STRING
  | ARRAY Schema
  | OBJECT "(jsstring \<times> Schema) list" "jsstring list"

datatype Part = InlineData jsstring jsstring | TextPart jsstring

record GenerateContentConfig =
  responseMimeType :: jsstring
  responseSchema :: Schema

record GenerateContentParameters =
  model :: jsstring
  contents :: "Part list"
  config :: GenerateContentConfig

record GenerateContentResponse =
  text' :: "jsstring option"

type_synonym 'e provider = "GenerateContentParameters \<Rightarrow> 'e + GenerateContentResponse"

text \<open>
  What an operation throws: \<open>new Error(message)\<close>, or the provider's rejection, which
  passes through an \<open>await\<close> that no \<open>try\<close> encloses.
\<close>

datatype 'e failure = Error jsstring | Rejected 'e

text \<open>A value conforms to a response schema.\<close>

fun conforms :: "Schema \<Rightarrow> json \<Rightarrow> bool"
  and conforms_properties :: "(jsstring \<times> Schema) list \<Rightarrow> (jsstring \<times> json) list \<Rightarrow> bool"
where
  "conforms STRING v = (case v of JStr s \<Rightarrow> True | _ \<Rightarrow> False)"
| "conforms (ARRAY items) v = (case v of JArr vs \<Rightarrow> list_all (conforms items) vs | _ \<Rightarrow> False)"
| "conforms (OBJECT properties required) v =
     (case v of
        JObj ps \<Rightarrow> list_all (\<lambda>k. map_of ps k \<noteq> None) required \<and> conforms_properties properties ps
      | _ \<Rightarrow> False)"
| "conforms_properties [] ps = True"
| "conforms_properties ((k, sch) # rest) ps =
     ((case map_of ps k of None \<Rightarrow> True | Some x \<Rightarrow> conforms sch x) \<and> conforms_properties rest ps)"

text \<open>A template literal, line by line.\<close>

fun unlines :: "jsstring list \<Rightarrow> jsstring" where
  "unlines [] = []"
| "unlines [l] = l"
| "unlines (l # m # ls) = l @ 0x0A # unlines (m # ls)"

text \<open>\<open>a || b\<close> on an optional string: \<open>undefined\<close> and the empty string are falsy.\<close>

definition or_else :: "jsstring option \<Rightarrow> jsstring \<Rightarrow> jsstring" where
  "or_else a b = (case a of None \<Rightarrow> b | Some s \<Rightarrow> if s = [] then b else s)"

section \<open>The recommendation client (\<open>services/geminiService.ts\<close>)\<close>

text \<open>
  Each operation returns the messages it wrote with \<open>console.error\<close> and how it
  completed: the error thrown (\<open>Inl\<close>) or the value returned (\<open>Inr\<close>), which is
  whatever \<open>JSON.parse\<close> gave. A string given as \<open>contents\<close> is one text part.
\<close>

definition scanResume_prompt :: jsstring where
  "scanResume_prompt = unlines
     [js '''',
      js ''    You are an expert recruiter. Extract the following information from this resume:'',
      js ''    1. Education (Degree, Year, Institution)'',
      js ''    2. Skills (Technical skills, programming languages, tools)'',
      js ''    3. Interests (Areas of interest, specializations)'',
      js '''',
      js ''    If any field is missing, provide a reasonable guess based on the context or leave it as a short descriptive string.'',
      js ''    Focus on Electronics and Communication Engineering (ECE) context if applicable.'',
      js '''',
      js ''    Provide the response in JSON format with the following structure:'',
      js ''    {'',
      js ''      \"education\": \"...\",'',
      js ''      \"skills\": \"...\",'',
      js ''      \"interests\": \"...\"'',
      js ''    }'',
      js ''  '']"

definition scanResume_schema :: Schema where
  "scanResume_schema =
     OBJECT [(js ''education'', STRING), (js ''skills'', STRING), (js ''interests'', STRING)]
            [js ''education'', js ''skills'', js ''interests'']"

definition scanResume_request :: "jsstring \<Rightarrow> jsstring \<Rightarrow> GenerateContentParameters" where
  "scanResume_request base64Data mimeType =
     \<lparr>model = js ''gemini-3-flash-preview'',
      contents = [InlineData base64Data mimeType, TextPart scanResume_prompt],
      config = \<lparr>responseMimeType = js ''application/json'',
                responseSchema = scanResume_schema\<rparr>\<rparr>"

definition scanResume ::
  "'e provider \<Rightarrow> jsstring \<Rightarrow> jsstring \<Rightarrow> jsstring list \<times> ('e failure + json)" where
  "scanResume generateContent base64Data mimeType =
     (case generateContent (scanResume_request base64Data mimeType) of
        Inl e \<Rightarrow> ([], Inl (Rejected e))
      | Inr response \<Rightarrow>
          (case JSON_parse (or_else (text' response) (js ''{}'')) of
             Some v \<Rightarrow> ([], Inr v)
           | None \<Rightarrow>
               ([js ''Failed to parse scan response''],
                Inl (Error (js ''Could not scan the resume. Please try manual input.'')))))"

definition getCareerRecommendations_prompt :: "jsstring \<Rightarrow> jsstring \<Rightarrow> jsstring \<Rightarrow> jsstring" where
  "getCareerRecommendations_prompt education skills interests = unlines
     [js '''',
      js ''    You are a career advisor specializing in Electronics and Communication Engineering (ECE).'',
      js ''    Based on the following student profile, provide career recommendations.'',
      js ''    '',
      js ''    Education: '' @ education,
      js ''    Skills: '' @ skills,
      js ''    Interests: '' @ interests,
      js ''    '',
      js ''    Provide the response in JSON format with the following structure:'',
      js ''    {'',
      js ''      \"careerPaths\": [\"path1\", \"path2\", ...],'',
      js ''      \"internshipRoles\": [\"role1\", \"role2\", ...],'',
      js ''      \"skillsToLearn\": [\"skill1\", \"skill2\", ...],'',
      js ''      \"summary\": \"A brief encouraging summary of why these paths fit.\"'',
      js ''    }'',
      js ''  '']"

definition getCareerRecommendations_schema :: Schema where
  "getCareerRecommendations_schema =
     OBJECT [(js ''careerPaths'', ARRAY STRING),
             (js ''internshipRoles'', ARRAY STRING),
             (js ''skillsToLearn'', ARRAY STRING),
             (js ''summary'', STRING)]
            [js ''careerPaths'', js ''internshipRoles'', js ''skillsToLearn'', js ''summary'']"

definition getCareerRecommendations_request ::
  "jsstring \<Rightarrow> jsstring \<Rightarrow> jsstring \<Rightarrow> GenerateContentParameters" where
  "getCareerRecommendations_request education skills interests =
     \<lparr>model = js ''gemini-3-flash-preview'',
      contents = [TextPart (getCareerRecommendations_prompt education skills interests)],
      config = \<lparr>responseMimeType = js ''application/json'',
                responseSchema = getCareerRecommendations_schema\<rparr>\<rparr>"

definition getCareerRecommendations ::
  "'e provider \<Rightarrow> jsstring \<Rightarrow> jsstring \<Rightarrow> jsstring \<Rightarrow> jsstring list \<times> ('e failure + json)" where
  "getCareerRecommendations generateContent education skills interests =
     (case generateContent (getCareerRecommendations_request education skills interests) of
        Inl e \<Rightarrow> ([], Inl (Rejected e))
      | Inr response \<Rightarrow>
          (case JSON_parse (or_else (text' response) (js ''{}'')) of
             Some v \<Rightarrow> ([], Inr v)
           | None \<Rightarrow>
               ([js ''Failed to parse Gemini response''],
                Inl (Error (js ''Could not generate recommendations. Please try again.'')))))"

section \<open>The typed values of the program and their JSON form\<close>

text \<open>
  The interfaces of the source. The type of \<open>HistoryItem.inputs\<close> is written out
  in the source as \<open>{education, skills, interests}\<close>: structurally it is
  \<open>ResumeData\<close>. The \<open>recommendation\<close> of a history item is declared a
  \<open>CareerRecommendation\<close>, but what the program puts there is the value that
  \<open>getCareerRecommendations\<close> returned, which is what \<open>JSON.parse\<close> gave for the
  provider's text, cast without a check: an object with its properties in the provider's
  order and with any further property the provider wrote. So the field holds the JSON
  value.
\<close>

record CareerRecommendation =
  careerPaths :: "jsstring list"
  internshipRoles :: "jsstring list"
  skillsToLearn :: "jsstring list"
  summary :: jsstring

record ResumeData =
  education :: jsstring
  skills :: jsstring
  interests :: jsstring

record HistoryItem =
  id' :: jsstring
  title :: jsstring
  date :: jsstring
  recommendation :: json
  inputs :: ResumeData

text \<open>
  The JSON values of these types. \<open>json_of_HistoryItem\<close> and \<open>json_of_ResumeData\<close>
  are the objects that \<open>handleSave\<close> creates, with their properties in the order of
  the object literals in the source; a history is the array of them, and this is what
  \<open>JSON.stringify\<close> is applied to. \<open>json_of_CareerRecommendation\<close> is the value of
  the declared type with its properties in the order of the response schema, one of the
  values that a provider following the schema answers with; the program itself never
  builds one.
\<close>

definition json_of_strings :: "jsstring list \<Rightarrow> json" where
  "json_of_strings xs = JArr (map JStr xs)"

definition json_of_CareerRecommendation :: "CareerRecommendation \<Rightarrow> json" where
  "json_of_CareerRecommendation r =
     JObj [(js ''careerPaths'', json_of_strings (careerPaths r)),
           (js ''internshipRoles'', json_of_strings (internshipRoles r)),
           (js ''skillsToLearn'', json_of_strings (skillsToLearn r)),
           (js ''summary'', JStr (summary r))]"

definition json_of_ResumeData :: "ResumeData \<Rightarrow> json" where
  "json_of_ResumeData i =
     JObj [(js ''education'', JStr (education i)),
           (js ''skills'', JStr (skills i)),
           (js ''interests'', JStr (interests i))]"

definition json_of_HistoryItem :: "HistoryItem \<Rightarrow> json" where
  "json_of_HistoryItem item =
     JObj [(js ''id'', JStr (id' item)),
           (js ''title'', JStr (title item)),
           (js ''date'', JStr (date item)),
           (js ''recommendation'', recommendation item),
           (js ''inputs'', json_of_ResumeData (inputs item))]"

definition json_of_history :: "HistoryItem list \<Rightarrow> json" where
  "json_of_history h = JArr (map json_of_HistoryItem h)"

text \<open>
  The other direction is a cast in the source (\<open>JSON.parse\<close> returns \<open>any\<close>): nothing
  is checked. \<open>as_T v\<close> is the value of type \<open>T\<close> that \<open>v\<close> is when every declared
  property is there with its declared type (properties are read by name: their order
  and any further property do not matter), and \<open>None\<close> when \<open>v\<close> is not of type
  \<open>T\<close>.
\<close>

definition as_string :: "json \<Rightarrow> jsstring option" where
  "as_string v = (case v of JStr s \<Rightarrow> Some s | _ \<Rightarrow> None)"

definition as_strings :: "json \<Rightarrow> jsstring list option" where
  "as_strings v = (case v of JArr vs \<Rightarrow> those (map as_string vs) | _ \<Rightarrow> None)"

definition as_CareerRecommendation :: "json \<Rightarrow> CareerRecommendation option" where
  "as_CareerRecommendation v =
     (case (Option.bind (field v (js ''careerPaths'')) as_strings,
            Option.bind (field v (js ''internshipRoles'')) as_strings,
            Option.bind (field v (js ''skillsToLearn'')) as_strings,
            Option.bind (field v (js ''summary'')) as_string) of
        (Some c, Some i, Some k, Some s) \<Rightarrow>
          Some \<lparr>careerPaths = c, internshipRoles = i, skillsToLearn = k, summary = s\<rparr>
      | _ \<Rightarrow> None)"

definition as_ResumeData :: "json \<Rightarrow> ResumeData option" where
  "as_ResumeData v =
     (case (Option.bind (field v (js ''education'')) as_string,
            Option.bind (field v (js ''skills'')) as_string,
            Option.bind (field v (js ''interests'')) as_string) of
        (Some e, Some s, Some i) \<Rightarrow> Some \<lparr>education = e, skills = s, interests = i\<rparr>
      | _ \<Rightarrow> None)"

text \<open>
  The component keeps the history in its state as \<open>JSON.parse\<close> returned it. The state
  of this model holds a list of \<open>HistoryItem\<close>, so a parsed value can be put there when
  it is the run-time value of such a list and of no other: an array of objects that have
  the five properties, and no other, in the order in which \<open>handleSave\<close> creates them
  (as every text that the program itself wrote has them), the \<open>inputs\<close> likewise.
\<close>

definition as_HistoryItem :: "json \<Rightarrow> HistoryItem option" where
  "as_HistoryItem v =
     (case (Option.bind (field v (js ''id'')) as_string,
            Option.bind (field v (js ''title'')) as_string,
            Option.bind (field v (js ''date'')) as_string,
            field v (js ''recommendation''),
            Option.bind (field v (js ''inputs'')) as_ResumeData) of
        (Some i, Some t, Some d, Some r, Some inp) \<Rightarrow>
          (let item = \<lparr>id' = i, title = t, date = d, recommendation = r, inputs = inp\<rparr>
           in if json_of_HistoryItem item = v then Some item else None)
      | _ \<Rightarrow> None)"

definition as_history :: "json \<Rightarrow> HistoryItem list option" where
  "as_history v = (case v of JArr vs \<Rightarrow> those (map as_HistoryItem vs) | _ \<Rightarrow> None)"

section \<open>Web Storage and the console\<close>

text \<open>
  \<open>localStorage\<close>: the stored items and the room there is. \<open>getItem\<close> returns the
  stored string or \<open>null\<close>; \<open>setItem\<close> throws a \<open>QuotaExceededError\<close> when the new
  value cannot be set, and then stores nothing. A storage that accepts no write at all
  has quota 0.
\<close>

datatype DOMException = QuotaExceededError

record Storage =
  quota :: nat
  items :: "(jsstring \<times> jsstring) list"

definition getItem :: "Storage \<Rightarrow> jsstring \<Rightarrow> jsstring option" where
  "getItem ls k = map_of (items ls) k"

definition used :: "(jsstring \<times> jsstring) list \<Rightarrow> nat" where
  "used kvs = sum_list (map (\<lambda>(k, v). length k + length v) kvs)"

definition setItem :: "Storage \<Rightarrow> jsstring \<Rightarrow> jsstring \<Rightarrow> DOMException + Storage" where
  "setItem ls k v =
     (let kvs = AList.update k v (items ls)
      in if used kvs \<le> quota ls then Inr (ls\<lparr>items := kvs\<rparr>) else Inl QuotaExceededError)"

text \<open>The console holds the messages written with \<open>console.error\<close>, oldest first.\<close>

record Browser =
  localStorage :: Storage
  console :: "jsstring list"

section \<open>The history store (\<open>App.tsx\<close>)\<close>

text \<open>
  The state of the component that the history code reads and writes (its other
  \<open>useState\<close> variables are the tab, the flags and the uploaded file of the form). The
  three profile fields are the strings of the form. \<open>recommendation\<close> is \<open>null\<close> or the
  value that \<open>getCareerRecommendations\<close> returned.
\<close>

record App =
  education :: jsstring
  skills :: jsstring
  interests :: jsstring
  recommendation :: json
  history :: "HistoryItem list"
  isSaveModalOpen :: bool
  saveTitle :: jsstring

text \<open>The state of the first render.\<close>

definition initial :: App where
  "initial =
     \<lparr>education = [], skills = [], interests = [], recommendation = JNull, history = [],
      isSaveModalOpen = False, saveTitle = []\<rparr>"

text \<open>
  A handler returns or throws; either way it leaves a browser and a component state.
\<close>

datatype completion = Returned | Threw DOMException

text \<open>
  The effect that loads the history on mount. When the stored text is JSON but not the
  value of a \<open>HistoryItem\<close> list, the source puts the value into the state as it is;
  the state of this model cannot hold it, so that case is an outcome of its own.
\<close>

datatype loaded = Loaded Browser App | Untyped json

definition loadHistory :: "Browser \<Rightarrow> App \<Rightarrow> loaded" where
  "loadHistory b st =
     (case getItem (localStorage b) (js ''ece_career_history'') of
        None \<Rightarrow> Loaded b st
      | Some savedHistory \<Rightarrow>
          if savedHistory = [] then Loaded b st
          else
            (case JSON_parse savedHistory of
               None \<Rightarrow> Loaded (b\<lparr>console := console b @ [js ''Failed to parse history'']\<rparr>) st
             | Some v \<Rightarrow>
                 (case as_history v of
                    Some h \<Rightarrow> Loaded b (st\<lparr>history := h\<rparr>)
                  | None \<Rightarrow> Untyped v)))"

definition saveToLocalStorage :: "HistoryItem list \<Rightarrow> Browser \<Rightarrow> App \<Rightarrow> completion \<times> Browser \<times> App" where
  "saveToLocalStorage newHistory b st =
     (case setItem (localStorage b) (js ''ece_career_history'')
             (JSON_stringify (json_of_history newHistory)) of
        Inl e \<Rightarrow> (Threw e, b, st)
      | Inr ls \<Rightarrow> (Returned, b\<lparr>localStorage := ls\<rparr>, st\<lparr>history := newHistory\<rparr>))"

text \<open>
  \<open>handleSave\<close>. \<open>uuid\<close> is what \<open>crypto.randomUUID()\<close> returns in this call and
  \<open>now\<close> what \<open>new Date().toLocaleDateString(...)\<close> returns.
\<close>

definition newItem :: "jsstring \<Rightarrow> jsstring \<Rightarrow> App \<Rightarrow> HistoryItem" where
  "newItem uuid now st =
     \<lparr>id' = uuid,
      title = saveTitle st,
      date = now,
      recommendation = recommendation st,
      inputs = \<lparr>ResumeData.education = education st, ResumeData.skills = skills st,
                ResumeData.interests = interests st\<rparr>\<rparr>"

definition handleSave :: "jsstring \<Rightarrow> jsstring \<Rightarrow> Browser \<Rightarrow> App \<Rightarrow> completion \<times> Browser \<times> App" where
  "handleSave uuid now b st =
     (if falsy (recommendation st) \<or> trim (saveTitle st) = [] then (Returned, b, st)
      else
        (case saveToLocalStorage (newItem uuid now st # history st) b st of
           (Threw e, b', st') \<Rightarrow> (Threw e, b', st')
         | (Returned, b', st') \<Rightarrow>
             (Returned, b', st'\<lparr>isSaveModalOpen := False, saveTitle := []\<rparr>)))"

definition deleteHistoryItem :: "jsstring \<Rightarrow> Browser \<Rightarrow> App \<Rightarrow> completion \<times> Browser \<times> App" where
  "deleteHistoryItem i b st =
     saveToLocalStorage (filter (\<lambda>item. id' item \<noteq> i) (history st)) b st"

text \<open>
  The click handler of ``Clear All'': \<open>confirmed\<close> is what \<open>confirm('Clear all history?')\<close>
  returns. The button is rendered only while the history is not empty.
\<close>

definition clearAll :: "bool \<Rightarrow> Browser \<Rightarrow> App \<Rightarrow> completion \<times> Browser \<times> App" where
  "clearAll confirmed b st =
     (if confirmed then saveToLocalStorage [] b st else (Returned, b, st))"

definition clearAll_rendered :: "App \<Rightarrow> bool" where
  "clearAll_rendered st \<longleftrightarrow> length (history st) > 0"

section \<open>Auxiliary definitions and example sessions\<close>

text \<open>
  The values that \<open>JSON.stringify\<close> writes and \<open>JSON.parse\<close> reads back as they
  are, and for which the text written here is the text the engine writes: no number in
  them, no object with a name twice, and no property name made of digits (which covers
  the array indices). Every value of the declared types of this program is one.
\<close>

definition digits_only :: "jsstring \<Rightarrow> bool" where
  "digits_only k \<longleftrightarrow> k \<noteq> [] \<and> list_all is_digit k"

fun plain :: "json \<Rightarrow> bool"
  and plain_elements :: "json list \<Rightarrow> bool"
  and plain_members :: "(jsstring \<times> json) list \<Rightarrow> bool"
where
  "plain JNull = True"
| "plain (JBool b) = True"
| "plain (JNum lit) = False"
| "plain (JStr s) = True"
| "plain (JArr vs) = plain_elements vs"
| "plain (JObj ps) = (distinct (map fst ps) \<and> plain_members ps)"
| "plain_elements [] = True"
| "plain_elements (v # vs) = (plain v \<and> plain_elements vs)"
| "plain_members [] = True"
| "plain_members ((k, v) # ps) = (\<not> digits_only k \<and> plain v \<and> plain_members ps)"

text \<open>The recursion depth \<open>parse_value\<close> needs to read a value back.\<close>

fun cost :: "json \<Rightarrow> nat"
  and cost_elements :: "json list \<Rightarrow> nat"
  and cost_members :: "(jsstring \<times> json) list \<Rightarrow> nat"
where
  "cost (JArr vs) = Suc (cost_elements vs)"
| "cost (JObj ps) = Suc (cost_members ps)"
| "cost v = Suc 0"
| "cost_elements [] = 0"
| "cost_elements (v # vs) = Suc (max (cost v) (cost_elements vs))"
| "cost_members [] = 0"
| "cost_members ((k, v) # ps) = Suc (max (cost v) (cost_members ps))"

text \<open>The characters a serialised plain value can start with.\<close>

definition value_start :: "jschar \<Rightarrow> bool" where
  "value_start c \<longleftrightarrow> c = 0x6E \<or> c = 0x74 \<or> c = 0x66 \<or> c = 0x22 \<or> c = 0x5B \<or> c = 0x7B"

text \<open>The browser and the component state that a handler leaves.\<close>

definition browser_after :: "completion \<times> Browser \<times> App \<Rightarrow> Browser" where
  "browser_after res = fst (snd res)"

definition state_after :: "completion \<times> Browser \<times> App \<Rightarrow> App" where
  "state_after res = snd (snd res)"

text \<open>
  A session of the application: the profile of the specification's example, a
  recommendation for it, a title typed into the save dialog; a browser whose storage has
  room (5 MiB), and one whose storage accepts no write.
\<close>

definition example_recommendation :: CareerRecommendation where
  "example_recommendation =
     \<lparr>careerPaths = [js ''VLSI Design Engineer'', js ''Embedded Systems Engineer''],
      internshipRoles = [js ''RTL Design Intern''],
      skillsToLearn = [js ''SystemVerilog'', js ''RTOS''],
      summary = js ''Your Verilog and Arduino background fits chip and firmware work.''\<rparr>"

text \<open>
  The same recommendation as the client returned it for a provider that wrote the summary
  first and one property more than the schema asks for.
\<close>

definition example_answer :: json where
  "example_answer =
     JObj
      [(js ''summary'', JStr (js ''Your Verilog and Arduino background fits chip and firmware work.'')),
       (js ''careerPaths'', JArr [JStr (js ''VLSI Design Engineer''), JStr (js ''Embedded Systems Engineer'')]),
       (js ''internshipRoles'', JArr [JStr (js ''RTL Design Intern'')]),
       (js ''skillsToLearn'', JArr [JStr (js ''SystemVerilog''), JStr (js ''RTOS'')]),
       (js ''confidence'', JStr (js ''high''))]"

definition example_state :: App where
  "example_state =
     \<lparr>education = js ''3rd Year B.Tech in ECE'',
      skills = js ''Verilog, Arduino, Python'',
      interests = js ''VLSI, Embedded Systems'',
      recommendation = example_answer,
      history = [],
      isSaveModalOpen = True,
      saveTitle = js ''VLSI Specialization Plan''\<rparr>"

definition roomy :: Browser where
  "roomy = \<lparr>localStorage = \<lparr>quota = 5242880, items = []\<rparr>, console = []\<rparr>"

definition full :: Browser where
  "full = \<lparr>localStorage = \<lparr>quota = 0, items = []\<rparr>, console = []\<rparr>"

text \<open>The roomy storage once the history key holds \<open>v\<close>.\<close>

definition stored :: "jsstring \<Rightarrow> Storage" where
  "stored v = \<lparr>quota = 5242880, items = [(js ''ece_career_history'', v)]\<rparr>"

text \<open>The entry that saving in that session creates.\<close>

definition example_item :: HistoryItem where
  "example_item = newItem (js ''7d1c'') (js ''Nov 3, 2026, 10:15 AM'') example_state"

text \<open>Two entries saved earlier, and the session with them in its history.\<close>

definition earlier_item :: HistoryItem where
  "earlier_item =
     \<lparr>id' = js ''a3f0'',
      title = js ''Embedded Plan'',
      date = js ''Oct 12, 2026, 09:30 AM'',
      recommendation =
        JObj
         [(js ''careerPaths'', JArr [JStr (js ''Firmware Engineer'')]),
          (js ''internshipRoles'', JArr []),
          (js ''skillsToLearn'', JArr [JStr (js ''RTOS'')]),
          (js ''summary'', JStr (js ''Start with microcontrollers.''))],
      inputs = \<lparr>ResumeData.education = js ''2nd Year B.Tech in ECE'',
                ResumeData.skills = js ''C, Arduino'',
                ResumeData.interests = js ''Embedded Systems''\<rparr>\<rparr>"

definition oldest_item :: HistoryItem where
  "oldest_item =
     \<lparr>id' = js ''51be'',
      title = js ''RF Plan'',
      date = js ''Sep 2, 2026, 06:05 PM'',
      recommendation =
        JObj
         [(js ''careerPaths'', JArr [JStr (js ''RF Engineer'')]),
          (js ''internshipRoles'', JArr [JStr (js ''Antenna Test Intern'')]),
          (js ''skillsToLearn'', JArr []),
          (js ''summary'', JStr (js ''Build on signals and systems.''))],
      inputs = \<lparr>ResumeData.education = js ''2nd Year B.Tech in ECE'',
                ResumeData.skills = js ''MATLAB'',
                ResumeData.interests = js ''Wireless''\<rparr>\<rparr>"

definition busy :: App where
  "busy = example_state\<lparr>history := [earlier_item, oldest_item]\<rparr>"

definition shelf :: App where
  "shelf = example_state\<lparr>history := [example_item, earlier_item, oldest_item]\<rparr>"

text \<open>The texts that \<open>JSON.stringify\<close> writes for these entries and for lists of them.\<close>

definition example_item_text :: jsstring where
  \<open>example_item_text =
     js ''{"id":"7d1c","title":"VLSI Specialization Plan","date":"Nov 3, 2026, 10:15 AM",'' @
     js ''"recommendation":{"summary":"Your Verilog and Arduino background fits chip and firmware work.",'' @
     js ''"careerPaths":["VLSI Design Engineer","Embedded Systems Engineer"],'' @
     js ''"internshipRoles":["RTL Design Intern"],'' @
     js ''"skillsToLearn":["SystemVerilog","RTOS"],'' @
     js ''"confidence":"high"},'' @
     js ''"inputs":{"education":"3rd Year B.Tech in ECE",'' @
     js ''"skills":"Verilog, Arduino, Python","interests":"VLSI, Embedded Systems"}}''\<close>

definition earlier_item_text :: jsstring where
  \<open>earlier_item_text =
     js ''{"id":"a3f0","title":"Embedded Plan","date":"Oct 12, 2026, 09:30 AM",'' @
     js ''"recommendation":{"careerPaths":["Firmware Engineer"],'' @
     js ''"internshipRoles":[],'' @
     js ''"skillsToLearn":["RTOS"],'' @
     js ''"summary":"Start with microcontrollers."},'' @
     js ''"inputs":{"education":"2nd Year B.Tech in ECE",'' @
     js ''"skills":"C, Arduino","interests":"Embedded Systems"}}''\<close>

definition oldest_item_text :: jsstring where
  \<open>oldest_item_text =
     js ''{"id":"51be","title":"RF Plan","date":"Sep 2, 2026, 06:05 PM",'' @
     js ''"recommendation":{"careerPaths":["RF Engineer"],'' @
     js ''"internshipRoles":["Antenna Test Intern"],'' @
     js ''"skillsToLearn":[],'' @
     js ''"summary":"Build on signals and systems."},'' @
     js ''"inputs":{"education":"2nd Year B.Tech in ECE",'' @
     js ''"skills":"MATLAB","interests":"Wireless"}}''\<close>

definition shelf_text :: jsstring where
  "shelf_text =
     js ''['' @ example_item_text @ js '','' @ earlier_item_text @ js '','' @ oldest_item_text @ js '']''"

definition pair_text :: jsstring where
  "pair_text = js ''['' @ example_item_text @ js '','' @ oldest_item_text @ js '']''"

text \<open>A browser whose stored text is not JSON.\<close>

definition corrupt :: Browser where
  "corrupt = \<lparr>localStorage = \<lparr>quota = 5242880, items = [(js ''ece_career_history'', js ''[{'')]\<rparr>,
              console = []\<rparr>"

text \<open>
  Providers: one that answers without text, one that cannot be reached, one that
  answers with an object that lacks required properties, one that answers with prose,
  and two that honour the response schema.
\<close>

definition silent :: "jsstring provider" where
  "silent request = Inr \<lparr>text' = None\<rparr>"

definition unreachable :: "jsstring provider" where
  "unreachable request = Inl (js ''fetch failed'')"

definition partial_answer :: "jsstring provider" where
  "partial_answer request = Inr \<lparr>text' = Some (js ''{\"summary\":\"Go on.\"}'')\<rparr>"

definition garbled :: "jsstring provider" where
  "garbled request = Inr \<lparr>text' = Some (js ''Sorry, I cannot'')\<rparr>"

definition helpful :: "jsstring provider" where
  "helpful request =
     Inr \<lparr>text' = Some (JSON_stringify (json_of_CareerRecommendation example_recommendation))\<rparr>"

definition example_resume :: ResumeData where
  "example_resume =
     \<lparr>ResumeData.education = js ''B.Tech ECE, 3rd year'', ResumeData.skills = js ''Verilog, Python'',
      ResumeData.interests = js ''VLSI''\<rparr>"

definition reader :: "jsstring provider" where
  "reader request = Inr \<lparr>text' = Some (JSON_stringify (json_of_ResumeData example_resume))\<rparr>"

chapter \<open>Properties\<close>

section \<open>\<open>JSON.parse\<close> reads back what \<open>JSON.stringify\<close> writes\<close>

lemma hexval_hexdigit: "d < 16 \<Longrightarrow> hexval (hexdigit d) = Some d"
  by (auto simp: hexval_def hexdigit_def Let_def unat_of_nat)

lemma hex4_nat: "((n div 4096 * 16 + n div 256 mod 16) * 16 + n div 16 mod 16) * 16 + n mod 16 = (n::nat)"
proof -
  define a where "a = n div 16"
  define b where "b = a div 16"
  have 1: "n div 256 = b" unfolding a_def b_def by (simp add: div_mult2_eq)
  have 2: "n div 4096 = b div 16" unfolding a_def b_def by (simp add: div_mult2_eq)
  have "((b div 16 * 16 + b mod 16) * 16 + a mod 16) * 16 + n mod 16 = n"
    unfolding a_def b_def by simp
  then show ?thesis unfolding 1 2 a_def .
qed

lemma hex4_nat_flat:
  "4096 * (n div 4096) + 256 * (n div 256 mod 16) + n div 16 mod 16 * 16 + n mod 16 = (n::nat)"
  using hex4_nat[of n] by simp

lemma unat_jschar_lt: "unat (c :: jschar) < 65536"
  using unsigned_less[of c, where ?'a=nat] by simp

lemma parse_chars_escape_unicode:
  "parse_chars (escape_unicode c @ rest) = cons_char c (parse_chars rest)"
proof -
  have "unat c div 4096 < 16" using unat_jschar_lt[of c] by simp
  then show ?thesis
    by (simp add: escape_unicode_def Let_def hexval_hexdigit hex4_nat_flat
          del: of_nat_add of_nat_mult)
qed

lemma parse_chars_quote_unit:
  "parse_chars (quote_unit c @ rest) = cons_char c (parse_chars rest)"
  by (auto simp: quote_unit_def parse_chars_escape_unicode unescape_def
        is_high_surrogate_def is_low_surrogate_def)

lemma high_surrogate_literal:
  "is_high_surrogate c \<Longrightarrow> c \<noteq> 0x22 \<and> c \<noteq> 0x5C \<and> \<not> c < 0x20"
  by (auto simp: is_high_surrogate_def word_le_nat_alt word_less_nat_alt)

lemma low_surrogate_literal:
  "is_low_surrogate c \<Longrightarrow> c \<noteq> 0x22 \<and> c \<noteq> 0x5C \<and> \<not> c < 0x20"
  by (auto simp: is_low_surrogate_def word_le_nat_alt word_less_nat_alt)

lemma parse_chars_quote_chars:
  "parse_chars (quote_chars s @ 0x22 # r) = Some (s, r)"
proof (induction s rule: quote_chars.induct)
  case 1
  then show ?case by simp
next
  case (2 c)
  then show ?case by (simp add: parse_chars_quote_unit cons_char_def)
next
  case (3 c d ds)
  show ?case
  proof (cases "is_high_surrogate c \<and> is_low_surrogate d")
    case True
    then have eq: "quote_chars (c # d # ds) = c # d # quote_chars ds" by simp
    from True 3 have ih: "parse_chars (quote_chars ds @ 0x22 # r) = Some (ds, r)" by blast
    show ?thesis
      unfolding eq using True high_surrogate_literal[of c] low_surrogate_literal[of d]
      by (simp add: ih cons_char_def)
  next
    case False
    then have eq: "quote_chars (c # d # ds) = quote_unit c @ quote_chars (d # ds)" by auto
    from False 3 have ih: "parse_chars (quote_chars (d # ds) @ 0x22 # r) = Some (d # ds, r)"
      by blast
    show ?thesis
      unfolding eq by (simp only: append_assoc parse_chars_quote_unit ih cons_char_def
          option.case prod.case)
  qed
qed

lemma update_fresh: "k \<notin> fst ` set al \<Longrightarrow> AList.update k v al = al @ [(k, v)]"
  by (induction al) auto

lemma foldl_update_distinct:
  "distinct (map fst (acc @ ps)) \<Longrightarrow>
   foldl (\<lambda>acc (k, v). AList.update k v acc) acc ps = acc @ ps"
proof (induction ps arbitrary: acc)
  case Nil
  then show ?case by simp
next
  case (Cons p ps)
  obtain k v where p: "p = (k, v)" by (cases p)
  from Cons.prems have fresh: "k \<notin> fst ` set acc" by (auto simp: p)
  from Cons.prems have "distinct (map fst ((acc @ [(k, v)]) @ ps))" by (auto simp: p)
  from Cons.IH[OF this] show ?case by (simp add: p update_fresh[OF fresh])
qed

lemma object_of_distinct: "distinct (map fst ps) \<Longrightarrow> object_of ps = ps"
  using foldl_update_distinct[of "[]" ps] by (simp add: object_of_def)

lemma value_start_simps:
  "value_start c \<Longrightarrow> \<not> is_ws c \<and> c \<noteq> 0x5D \<and> c \<noteq> 0x7D \<and> c \<noteq> 0x2C"
  by (auto simp: value_start_def is_ws_def)

lemma stringify_start:
  "plain v \<Longrightarrow> \<exists>c cs. JSON_stringify v = c # cs \<and> value_start c"
  by (cases v) (auto simp: js_def value_start_def JSON_quote_def)

lemma stringify_elements_start:
  assumes "vs \<noteq> []" and "plain_elements vs"
  shows "\<exists>c cs. stringify_elements vs = c # cs \<and> value_start c"
proof -
  from assms(1) obtain v ws where vs: "vs = v # ws" by (cases vs) auto
  with assms(2) have "plain v" by simp
  from stringify_start[OF this] obtain c cs where "JSON_stringify v = c # cs" "value_start c"
    by blast
  with vs show ?thesis by (cases ws) auto
qed

lemma stringify_members_start:
  assumes "ps \<noteq> []"
  shows "\<exists>cs. stringify_members ps = 0x22 # cs"
proof -
  from assms obtain k v qs where "ps = (k, v) # qs" by (cases ps) auto
  then show ?thesis by (cases qs) (auto simp: JSON_quote_def)
qed

lemma skip_ws_start: "\<not> is_ws c \<Longrightarrow> skip_ws (c # cs) = c # cs"
  by (simp add: skip_ws_def)

lemma parse_value_leafs:
  "parse_value (Suc n) (js ''null'' @ r) = Ok JNull r"
  "parse_value (Suc n) (js ''true'' @ r) = Ok (JBool True) r"
  "parse_value (Suc n) (js ''false'' @ r) = Ok (JBool False) r"
  "parse_value (Suc n) (JSON_quote s @ r) = Ok (JStr s) r"
  by (simp_all add: js_def strip_prefix_def is_digit_def JSON_quote_def parse_chars_quote_chars)

lemma skip_ws_stringify:
  "plain v \<Longrightarrow> skip_ws (JSON_stringify v @ r) = JSON_stringify v @ r"
  using stringify_start[of v] value_start_simps by (auto simp: skip_ws_start)

lemma skip_ws_stringify_elements:
  "vs \<noteq> [] \<Longrightarrow> plain_elements vs \<Longrightarrow>
   skip_ws (stringify_elements vs @ r) = stringify_elements vs @ r"
  using stringify_elements_start[of vs] value_start_simps by (auto simp: skip_ws_start)

lemma skip_ws_stringify_members:
  "ps \<noteq> [] \<Longrightarrow> skip_ws (stringify_members ps @ r) = stringify_members ps @ r"
  using stringify_members_start[of ps] by (auto simp: skip_ws_start is_ws_def)

lemma skip_ws_punct [simp]:
  "skip_ws (0x5D # r) = 0x5D # r" "skip_ws (0x7D # r) = 0x7D # r"
  "skip_ws (0x2C # r) = 0x2C # r" "skip_ws (0x3A # r) = 0x3A # r"
  by (simp_all add: skip_ws_def is_ws_def)

lemma parse_stringify:
  "plain v \<longrightarrow> (\<forall>n r. cost v \<le> n \<longrightarrow> parse_value n (JSON_stringify v @ r) = Ok v r)"
  "vs \<noteq> [] \<longrightarrow> plain_elements vs \<longrightarrow>
     (\<forall>n r. cost_elements vs \<le> n \<longrightarrow>
        parse_elements n (stringify_elements vs @ 0x5D # r) = Ok vs r)"
  "ps \<noteq> [] \<longrightarrow> plain_members ps \<longrightarrow>
     (\<forall>n r. cost_members ps \<le> n \<longrightarrow>
        parse_members n (stringify_members ps @ 0x7D # r) = Ok ps r)"
proof (induction v and vs and ps rule: JSON_stringify_stringify_elements_stringify_members.induct)
  case 1
  show ?case using parse_value_leafs(1) by (auto simp: Suc_le_eq gr0_conv_Suc)
next
  case (2 b)
  show ?case using parse_value_leafs(2,3) by (auto simp: Suc_le_eq gr0_conv_Suc)
next
  case (3 lit)
  show ?case by simp
next
  case (4 s)
  show ?case using parse_value_leafs(4) by (auto simp: Suc_le_eq gr0_conv_Suc)
next
  case (5 vs)
  show ?case
  proof (intro impI allI)
    fix n r
    assume pl: "plain (JArr vs)" and c: "cost (JArr vs) \<le> n"
    from c obtain m where n: "n = Suc m" and m: "cost_elements vs \<le> m"
      by (cases n) auto
    show "parse_value n (JSON_stringify (JArr vs) @ r) = Ok (JArr vs) r"
    proof (cases "vs = []")
      case True
      then show ?thesis by (simp add: n)
    next
      case False
      with pl obtain d ds where st: "stringify_elements vs = d # ds" and vd: "value_start d"
        using stringify_elements_start[of vs] by auto
      from False pl m 5 have ih: "parse_elements m (stringify_elements vs @ 0x5D # r) = Ok vs r"
        by simp
      from vd have nd: "\<not> is_ws d" "d \<noteq> 0x5D" using value_start_simps by blast+
      have "parse_value (Suc m) (0x5B # (d # ds) @ 0x5D # r) = Ok (JArr vs) r"
        using ih nd by (simp add: st skip_ws_start)
      then show ?thesis by (simp add: n st)
    qed
  qed
next
  case (6 ps)
  show ?case
  proof (intro impI allI)
    fix n r
    assume pl: "plain (JObj ps)" and c: "cost (JObj ps) \<le> n"
    from c obtain m where n: "n = Suc m" and m: "cost_members ps \<le> m"
      by (cases n) auto
    from pl have ob: "object_of ps = ps" by (simp add: object_of_distinct)
    show "parse_value n (JSON_stringify (JObj ps) @ r) = Ok (JObj ps) r"
    proof (cases "ps = []")
      case True
      then show ?thesis by (simp add: n)
    next
      case False
      then obtain ds where st: "stringify_members ps = 0x22 # ds"
        using stringify_members_start[of ps] by auto
      from False pl m 6 have ih: "parse_members m (stringify_members ps @ 0x7D # r) = Ok ps r"
        by simp
      have "parse_value (Suc m) (0x7B # (0x22 # ds) @ 0x7D # r) = Ok (JObj ps) r"
        using ih by (simp add: st skip_ws_start is_ws_def ob)
      then show ?thesis by (simp add: n st)
    qed
  qed
next
  case 7
  show ?case by simp
next
  case (8 v)
  show ?case
  proof (intro impI allI)
    fix n r
    assume pl: "plain_elements [v]" and c: "cost_elements [v] \<le> n"
    from c obtain m where n: "n = Suc m" and m: "cost v \<le> m" by (cases n) auto
    from pl m 8 have "parse_value m (JSON_stringify v @ 0x5D # r) = Ok v (0x5D # r)" by simp
    then show "parse_elements n (stringify_elements [v] @ 0x5D # r) = Ok [v] r"
      by (simp add: n)
  qed
next
  case (9 v w vs)
  show ?case
  proof (intro impI allI)
    fix n r
    assume pl: "plain_elements (v # w # vs)" and c: "cost_elements (v # w # vs) \<le> n"
    from c obtain m where n: "n = Suc m" and m: "cost v \<le> m" "cost_elements (w # vs) \<le> m"
      by (cases n) auto
    let ?rest = "stringify_elements (w # vs) @ 0x5D # r"
    from pl m 9 have 1: "parse_value m (JSON_stringify v @ 0x2C # ?rest) = Ok v (0x2C # ?rest)"
      by simp
    from pl m 9 have 2: "parse_elements m ?rest = Ok (w # vs) r" by simp
    from pl have 3: "skip_ws ?rest = ?rest"
      using skip_ws_stringify_elements[of "w # vs"] by simp
    show "parse_elements n (stringify_elements (v # w # vs) @ 0x5D # r) = Ok (v # w # vs) r"
      using 1 2 3 by (simp add: n)
  qed
next
  case 10
  show ?case by simp
next
  case (11 k v)
  show ?case
  proof (intro impI allI)
    fix n r
    assume pl: "plain_members [(k, v)]" and c: "cost_members [(k, v)] \<le> n"
    from c obtain m where n: "n = Suc m" and m: "cost v \<le> m" by (cases n) auto
    from pl m 11 have 1: "parse_value m (JSON_stringify v @ 0x7D # r) = Ok v (0x7D # r)" by simp
    from pl have 2: "skip_ws (JSON_stringify v @ 0x7D # r) = JSON_stringify v @ 0x7D # r"
      using skip_ws_stringify[of v] by simp
    show "parse_members n (stringify_members [(k, v)] @ 0x7D # r) = Ok [(k, v)] r"
      using 1 2 by (simp add: n JSON_quote_def parse_chars_quote_chars)
  qed
next
  case (12 k v p ps)
  show ?case
  proof (intro impI allI)
    fix n r
    assume pl: "plain_members ((k, v) # p # ps)" and c: "cost_members ((k, v) # p # ps) \<le> n"
    from c obtain m where n: "n = Suc m" and m: "cost v \<le> m" "cost_members (p # ps) \<le> m"
      by (cases n) auto
    let ?rest = "stringify_members (p # ps) @ 0x7D # r"
    from pl m 12 have 1: "parse_value m (JSON_stringify v @ 0x2C # ?rest) = Ok v (0x2C # ?rest)"
      by simp
    from pl m 12 have 2: "parse_members m ?rest = Ok (p # ps) r" by simp
    have 3: "skip_ws ?rest = ?rest"
      using skip_ws_stringify_members[of "p # ps"] by simp
    from pl have 4: "skip_ws (JSON_stringify v @ 0x2C # ?rest) = JSON_stringify v @ 0x2C # ?rest"
      using skip_ws_stringify[of v] by simp
    show "parse_members n (stringify_members ((k, v) # p # ps) @ 0x7D # r) = Ok ((k, v) # p # ps) r"
      using 1 2 3 4 by (simp add: n JSON_quote_def parse_chars_quote_chars)
  qed
qed

section \<open>The parser consumes its input and its recursion bound is never reached\<close>

lemma length_skip_ws: "length (skip_ws s) \<le> length s"
  by (simp add: skip_ws_def length_dropWhile_le)

lemma skip_ws_Cons_length: "skip_ws s = c # r \<Longrightarrow> length r < length s"
  using length_skip_ws[of s] by simp

lemma cons_char_Some: "cons_char c res = Some (str, r) \<Longrightarrow> \<exists>t. res = Some (t, r)"
  by (auto simp: cons_char_def split: option.splits)

lemma parse_chars_shorter: "parse_chars s = Some (str, r) \<Longrightarrow> length r < length s"
proof (induction s arbitrary: str rule: length_induct)
  case (1 s)
  note IH = "1.IH"[rule_format]
  from "1.prems" obtain c cs where s: "s = c # cs" by (cases s) auto
  show ?case
  proof (cases "c = 0x22")
    case True
    with "1.prems" show ?thesis by (simp add: s)
  next
    case q: False
    show ?thesis
    proof (cases "c = 0x5C")
      case True
      with "1.prems" q obtain e r0 where cs: "cs = e # r0"
        by (cases cs) (auto simp: s)
      show ?thesis
      proof (cases "e = 0x75")
        case u: True
        with "1.prems" q True cs obtain h1 h2 h3 h4 r' where r0: "r0 = h1 # h2 # h3 # h4 # r'"
          by (auto simp: s split: list.splits)
        with "1.prems" q True cs u obtain t where "parse_chars r' = Some (t, r)"
          by (auto simp: s dest: cons_char_Some split: option.splits)
        moreover have "length r' < length s" by (simp add: s cs r0)
        ultimately have "length r < length r'" using IH by blast
        then show ?thesis by (simp add: s cs r0)
      next
        case u: False
        with "1.prems" q True cs obtain t where "parse_chars r0 = Some (t, r)"
          by (auto simp: s dest: cons_char_Some split: option.splits)
        moreover have "length r0 < length s" by (simp add: s cs)
        ultimately have "length r < length r0" using IH by blast
        then show ?thesis by (simp add: s cs)
      qed
    next
      case b: False
      with "1.prems" q obtain t where "parse_chars cs = Some (t, r)"
        by (auto simp: s dest: cons_char_Some split: if_splits)
      moreover have "length cs < length s" by (simp add: s)
      ultimately have "length r < length cs" using IH by blast
      then show ?thesis by (simp add: s)
    qed
  qed
qed

lemma scan_number_shorter: "scan_number s = Some (lit, r) \<Longrightarrow> length r < length s"
proof -
  assume a: "scan_number s = Some (lit, r)"
  obtain m s1 where m: "scan_minus s = (m, s1)" by (cases "scan_minus s")
  then have l1: "length s1 \<le> length s"
    by (auto simp: scan_minus_def split: list.splits if_splits)
  from a m obtain i s2 where i: "scan_int s1 = Some (i, s2)"
    by (auto simp: scan_number_def split: option.splits)
  then have l2: "length s2 < length s1"
    by (auto simp: scan_int_def length_dropWhile_le less_Suc_eq_le split: list.splits if_splits)
  from a m i obtain f s3 where f: "scan_frac s2 = Some (f, s3)"
    by (auto simp: scan_number_def split: option.splits)
  then have l3: "length s3 \<le> length s2"
    by (auto simp: scan_frac_def length_dropWhile_le le_SucI split: list.splits if_splits)
  from a m i f obtain e where e: "scan_exp s3 = Some (e, r)"
    by (auto simp: scan_number_def split: option.splits)
  then have l4: "length r \<le> length s3"
    by (auto simp: scan_exp_def scan_sign_def length_dropWhile_le le_SucI
          intro: order_trans[OF length_dropWhile_le]
          split: list.splits if_splits prod.splits)
  from l1 l2 l3 l4 show ?thesis by simp
qed

lemma strip_prefix_shorter:
  "strip_prefix p s = Some r \<Longrightarrow> p \<noteq> [] \<Longrightarrow> length r < length s"
proof -
  assume a: "strip_prefix p s = Some r" and p: "p \<noteq> []"
  then have t: "take (length p) s = p" and r: "r = drop (length p) s"
    by (auto simp: strip_prefix_def split: if_splits)
  from t have "length (take (length p) s) = length p" by simp
  then have "length p \<le> length s" by simp
  with p r show ?thesis by (cases p) auto
qed

lemma js_literal_nonempty: "js ''true'' \<noteq> []" "js ''false'' \<noteq> []" "js ''null'' \<noteq> []"
  by (simp_all add: js_def)

lemma skip_ws_eq_Cons_le: "skip_ws s = c # r \<Longrightarrow> Suc (length r) \<le> length s"
  using length_skip_ws[of s] by simp

lemma parse_shorter:
  "(\<forall>s v r. parse_value n s = Ok v r \<longrightarrow> length r < length s)
   \<and> (\<forall>s vs r. parse_elements n s = Ok vs r \<longrightarrow> length r < length s)
   \<and> (\<forall>s ms r. parse_members n s = Ok ms r \<longrightarrow> length r < length s)"
proof (induction n)
  case 0
  show ?case by simp
next
  case (Suc n)
  then have V: "\<And>s v r. parse_value n s = Ok v r \<Longrightarrow> length r < length s"
    and E: "\<And>s vs r. parse_elements n s = Ok vs r \<Longrightarrow> length r < length s"
    and M: "\<And>s ms r. parse_members n s = Ok ms r \<Longrightarrow> length r < length s"
    by blast+
  have 1: "length r < length s" if a: "parse_value (Suc n) s = Ok v r" for s v r
  proof -
    from a obtain c cs where s: "s = c # cs" by (cases s) auto
    consider (obj) "c = 0x7B" | (arr) "c \<noteq> 0x7B" "c = 0x5B"
      | (str) "c \<noteq> 0x7B" "c \<noteq> 0x5B" "c = 0x22"
      | (num) "c \<noteq> 0x7B" "c \<noteq> 0x5B" "c \<noteq> 0x22" "c = 0x2D \<or> is_digit c"
      | (lit) "c \<noteq> 0x7B" "c \<noteq> 0x5B" "c \<noteq> 0x22" "\<not> (c = 0x2D \<or> is_digit c)"
      by blast
    then show ?thesis
    proof cases
      case obj
      with a obtain d r0 where k: "skip_ws cs = d # r0"
        by (cases "skip_ws cs") (auto simp: s)
      show ?thesis
      proof (cases "d = 0x7D")
        case True
        with a obj k have "r = r0" by (simp add: s)
        with skip_ws_eq_Cons_le[OF k] show ?thesis by (simp add: s)
      next
        case False
        with a obj k obtain ms where "parse_members n (d # r0) = Ok ms r"
          by (auto simp: s split: parsed.splits)
        from M[OF this] length_skip_ws[of cs] show ?thesis by (simp add: s k)
      qed
    next
      case arr
      with a obtain d r0 where k: "skip_ws cs = d # r0"
        by (cases "skip_ws cs") (auto simp: s)
      show ?thesis
      proof (cases "d = 0x5D")
        case True
        with a arr k have "r = r0" by (simp add: s)
        with skip_ws_eq_Cons_le[OF k] show ?thesis by (simp add: s)
      next
        case False
        with a arr k obtain vs where "parse_elements n (d # r0) = Ok vs r"
          by (auto simp: s split: parsed.splits)
        from E[OF this] length_skip_ws[of cs] show ?thesis by (simp add: s k)
      qed
    next
      case str
      with a obtain t where "parse_chars cs = Some (t, r)"
        by (auto simp: s split: option.splits)
      from parse_chars_shorter[OF this] show ?thesis by (simp add: s)
    next
      case num
      with a obtain lit where "scan_number s = Some (lit, r)"
        by (auto simp: s split: option.splits)
      from scan_number_shorter[OF this] show ?thesis .
    next
      case lit
      with a have "strip_prefix (js ''true'') s = Some r \<or> strip_prefix (js ''false'') s = Some r
          \<or> strip_prefix (js ''null'') s = Some r"
        by (auto simp: s split: option.splits)
      then show ?thesis
        using strip_prefix_shorter js_literal_nonempty by blast
    qed
  qed
  have 2: "length r < length s" if a: "parse_elements (Suc n) s = Ok vs r" for s vs r
  proof -
    from a obtain v r0 where v: "parse_value n s = Ok v r0"
      by (auto split: parsed.splits)
    from a v obtain c r1 where k: "skip_ws r0 = c # r1"
      by (cases "skip_ws r0") auto
    from V[OF v] skip_ws_eq_Cons_le[OF k] have l: "length r1 < length s" by simp
    show ?thesis
    proof (cases "c = 0x2C")
      case True
      with a v k obtain ws where "parse_elements n (skip_ws r1) = Ok ws r"
        by (auto split: parsed.splits)
      from E[OF this] length_skip_ws[of r1] l show ?thesis by simp
    next
      case False
      with a v k have "r = r1" by (auto split: if_splits)
      with l show ?thesis by simp
    qed
  qed
  have 3: "length r < length s" if a: "parse_members (Suc n) s = Ok ms r" for s ms r
  proof -
    from a obtain q cs where s: "s = q # cs" by (cases s) auto
    from a have q: "q = 0x22" by (auto simp: s split: if_splits)
    from a q obtain k r0 where pc: "parse_chars cs = Some (k, r0)"
      by (auto simp: s split: option.splits)
    from a q pc obtain c r1 where k1: "skip_ws r0 = c # r1"
      by (cases "skip_ws r0") (auto simp: s)
    from a q pc k1 have c: "c = 0x3A" by (auto simp: s split: if_splits)
    from a q pc k1 c obtain v r2 where v: "parse_value n (skip_ws r1) = Ok v r2"
      by (auto simp: s split: parsed.splits)
    from a q pc k1 c v obtain d r3 where k3: "skip_ws r2 = d # r3"
      by (cases "skip_ws r2") (auto simp: s)
    from parse_chars_shorter[OF pc] skip_ws_eq_Cons_le[OF k1] length_skip_ws[of r1]
      V[OF v] skip_ws_eq_Cons_le[OF k3]
    have l: "length r3 < length s" by (simp add: s)
    show ?thesis
    proof (cases "d = 0x2C")
      case True
      with a q pc k1 c v k3 obtain ws where "parse_members n (skip_ws r3) = Ok ws r"
        by (auto simp: s split: parsed.splits)
      from M[OF this] length_skip_ws[of r3] l show ?thesis by simp
    next
      case False
      with a q pc k1 c v k3 have "r = r3" by (auto simp: s split: if_splits)
      with l show ?thesis by simp
    qed
  qed
  from 1 2 3 show ?case by blast
qed

lemmas parse_value_shorter = parse_shorter[THEN conjunct1, rule_format]

lemma parse_fuel:
  "(\<forall>s. 2 * length s < n \<longrightarrow> parse_value n s \<noteq> OutOfFuel)
   \<and> (\<forall>s. 2 * length s + 1 < n \<longrightarrow> parse_elements n s \<noteq> OutOfFuel)
   \<and> (\<forall>s. 2 * length s + 1 < n \<longrightarrow> parse_members n s \<noteq> OutOfFuel)"
proof (induction n)
  case 0
  show ?case by simp
next
  case (Suc n)
  then have V: "\<And>s. 2 * length s < n \<Longrightarrow> parse_value n s \<noteq> OutOfFuel"
    and E: "\<And>s. 2 * length s + 1 < n \<Longrightarrow> parse_elements n s \<noteq> OutOfFuel"
    and M: "\<And>s. 2 * length s + 1 < n \<Longrightarrow> parse_members n s \<noteq> OutOfFuel"
    by blast+
  have 1: "parse_value (Suc n) s \<noteq> OutOfFuel" if b: "2 * length s < Suc n" for s
  proof (cases s)
    case Nil
    then show ?thesis by simp
  next
    case (Cons c cs)
    have sub: "2 * length (skip_ws cs) + 1 < n"
      using length_skip_ws[of cs] b by (simp add: Cons)
    consider (obj) "c = 0x7B" | (arr) "c \<noteq> 0x7B" "c = 0x5B"
      | (str) "c \<noteq> 0x7B" "c \<noteq> 0x5B" "c = 0x22"
      | (num) "c \<noteq> 0x7B" "c \<noteq> 0x5B" "c \<noteq> 0x22" "c = 0x2D \<or> is_digit c"
      | (lit) "c \<noteq> 0x7B" "c \<noteq> 0x5B" "c \<noteq> 0x22" "\<not> (c = 0x2D \<or> is_digit c)"
      by blast
    then show ?thesis
    proof cases
      case obj
      show ?thesis
      proof (cases "skip_ws cs")
        case Nil
        with obj show ?thesis by (simp add: Cons)
      next
        case k: (Cons d r0)
        from M[OF sub] have "parse_members n (d # r0) \<noteq> OutOfFuel" by (simp add: k)
        with obj k show ?thesis
          by (cases "parse_members n (d # r0)") (simp_all add: Cons)
      qed
    next
      case arr
      show ?thesis
      proof (cases "skip_ws cs")
        case Nil
        with arr show ?thesis by (simp add: Cons)
      next
        case k: (Cons d r0)
        from E[OF sub] have "parse_elements n (d # r0) \<noteq> OutOfFuel" by (simp add: k)
        with arr k show ?thesis
          by (cases "parse_elements n (d # r0)") (simp_all add: Cons)
      qed
    next
      case str
      then show ?thesis by (cases "parse_chars cs") (auto simp: Cons)
    next
      case num
      then show ?thesis by (cases "scan_number s") (auto simp: Cons)
    next
      case lit
      then show ?thesis
        by (cases "strip_prefix (js ''true'') s"; cases "strip_prefix (js ''false'') s";
            cases "strip_prefix (js ''null'') s") (auto simp: Cons)
    qed
  qed
  have 2: "parse_elements (Suc n) s \<noteq> OutOfFuel" if b: "2 * length s + 1 < Suc n" for s
  proof (cases "parse_value n s")
    case (Ok v r0)
    show ?thesis
    proof (cases "skip_ws r0")
      case Nil
      with Ok show ?thesis by simp
    next
      case k: (Cons c r1)
      from parse_value_shorter[OF Ok] skip_ws_eq_Cons_le[OF k] length_skip_ws[of r1] b
      have "2 * length (skip_ws r1) + 1 < n" by simp
      then have "parse_elements n (skip_ws r1) \<noteq> OutOfFuel" by (rule E)
      with Ok k show ?thesis
        by (cases "parse_elements n (skip_ws r1)") simp_all
    qed
  next
    case SyntaxError
    then show ?thesis by simp
  next
    case OutOfFuel
    moreover from b have "parse_value n s \<noteq> OutOfFuel" using V by simp
    ultimately show ?thesis by simp
  qed
  have 3: "parse_members (Suc n) s \<noteq> OutOfFuel" if b: "2 * length s + 1 < Suc n" for s
  proof (cases s)
    case Nil
    then show ?thesis by simp
  next
    case (Cons q cs)
    show ?thesis
    proof (cases "parse_chars cs")
      case None
      then show ?thesis by (simp add: Cons)
    next
      case (Some kr)
      obtain k r0 where pc: "parse_chars cs = Some (k, r0)" using Some by (cases kr) auto
      show ?thesis
      proof (cases "skip_ws r0")
        case Nil
        with pc show ?thesis by (simp add: Cons)
      next
        case k1: (Cons c r1)
        from parse_chars_shorter[OF pc] skip_ws_eq_Cons_le[OF k1] length_skip_ws[of r1] b
        have l1: "2 * length (skip_ws r1) < n" by (simp add: Cons)
        show ?thesis
        proof (cases "parse_value n (skip_ws r1)")
          case (Ok v r2)
          show ?thesis
          proof (cases "skip_ws r2")
            case Nil
            with pc k1 Ok show ?thesis by (simp add: Cons)
          next
            case k3: (Cons d r3)
            from parse_chars_shorter[OF pc] skip_ws_eq_Cons_le[OF k1] length_skip_ws[of r1]
              parse_value_shorter[OF Ok] skip_ws_eq_Cons_le[OF k3] length_skip_ws[of r3] b
            have "2 * length (skip_ws r3) + 1 < n" by (simp add: Cons)
            then have "parse_members n (skip_ws r3) \<noteq> OutOfFuel" by (rule M)
            with pc k1 Ok k3 show ?thesis
              by (cases "parse_members n (skip_ws r3)") (simp_all add: Cons)
          qed
        next
          case SyntaxError
          with pc k1 show ?thesis by (simp add: Cons)
        next
          case OutOfFuel
          with V[OF l1] show ?thesis by simp
        qed
      qed
    qed
  qed
  from 1 2 3 show ?case by blast
qed

lemma JSON_parse_fuel: "parse_value (Suc (2 * length s)) (skip_ws s) \<noteq> OutOfFuel"
proof -
  have "2 * length (skip_ws s) < Suc (2 * length s)"
    using length_skip_ws[of s] by simp
  then show ?thesis using parse_fuel by blast
qed

lemma JSON_parse_None_iff:
  "JSON_parse s = None \<longleftrightarrow>
     parse_value (Suc (2 * length s)) (skip_ws s) = SyntaxError
     \<or> (\<exists>v r. parse_value (Suc (2 * length s)) (skip_ws s) = Ok v r \<and> skip_ws r \<noteq> [])"
  using JSON_parse_fuel[of s]
  by (cases "parse_value (Suc (2 * length s)) (skip_ws s)") (auto simp: JSON_parse_def)

section \<open>Typed values through JSON, storage, \<open>trim\<close>\<close>

lemma length_js [simp]: "length (js s) = length s"
  by (simp add: js_def)

lemma cost_le_length:
  "plain v \<longrightarrow> cost v \<le> length (JSON_stringify v)"
  "plain_elements vs \<longrightarrow> cost_elements vs \<le> Suc (length (stringify_elements vs))"
  "plain_members ps \<longrightarrow> cost_members ps \<le> Suc (length (stringify_members ps))"
proof (induction v and vs and ps rule: JSON_stringify_stringify_elements_stringify_members.induct)
qed (auto simp: JSON_quote_def)

lemma JSON_parse_stringify:
  assumes "plain v"
  shows "JSON_parse (JSON_stringify v) = Some v"
proof -
  from assms have c: "cost v \<le> Suc (2 * length (JSON_stringify v))"
    using cost_le_length(1)[of v] by simp
  from assms c have "parse_value (Suc (2 * length (JSON_stringify v))) (JSON_stringify v @ []) = Ok v []"
    using parse_stringify(1)[of v] by blast
  moreover from assms have "skip_ws (JSON_stringify v) = JSON_stringify v"
    using skip_ws_stringify[of v "[]"] by simp
  ultimately show ?thesis by (simp add: JSON_parse_def skip_ws_def)
qed

lemma plain_strings: "plain_elements (map JStr xs)"
  by (induction xs) auto

lemma plain_json_of_strings [simp]: "plain (json_of_strings xs)"
  by (simp add: json_of_strings_def plain_strings)

lemma unat_of_nat_small: "n < 65536 \<Longrightarrow> unat (of_nat n :: jschar) = n"
  by (simp add: unat_of_nat)

lemma unat_of_char: "unat (of_char c :: jschar) = of_char c"
proof -
  define n :: nat where "n = of_char c"
  have "n mod 256 = n" unfolding n_def by simp
  then have "n < 256" by (metis mod_less_divisor zero_less_numeral)
  then have lt: "n < 65536" by simp
  have "(of_char c :: jschar) = of_nat n" unfolding n_def by (simp add: of_nat_of_char)
  then show ?thesis using unat_of_nat_small[OF lt] by (simp add: n_def)
qed

lemma js_inject [simp]: "js a = js b \<longleftrightarrow> a = b"
proof -
  have "inj (of_char :: char \<Rightarrow> jschar)"
  proof (rule injI)
    fix x y :: char
    assume "(of_char x :: jschar) = of_char y"
    then have "unat (of_char x :: jschar) = unat (of_char y :: jschar)" by simp
    then show "x = y" by (simp add: unat_of_char)
  qed
  then show ?thesis by (simp add: js_def)
qed

lemma digits_only_js [simp]: "digits_only (js s) \<longleftrightarrow> s \<noteq> [] \<and> list_all (\<lambda>c. is_digit (of_char c)) s"
  by (simp add: digits_only_def js_def list_all_iff)

lemma is_digit_of_char:
  "is_digit (of_char c) \<longleftrightarrow> 48 \<le> (of_char c :: nat) \<and> (of_char c :: nat) \<le> 57"
  by (simp add: is_digit_def word_le_nat_alt unat_of_char)

lemma plain_json_of_CareerRecommendation [simp]: "plain (json_of_CareerRecommendation r)"
  by (simp add: json_of_CareerRecommendation_def is_digit_of_char)

lemma plain_json_of_ResumeData [simp]: "plain (json_of_ResumeData i)"
  by (simp add: json_of_ResumeData_def is_digit_of_char)

lemma plain_json_of_HistoryItem [simp]:
  "plain (json_of_HistoryItem item) \<longleftrightarrow> plain (HistoryItem.recommendation item)"
  by (simp add: json_of_HistoryItem_def is_digit_of_char)

lemma plain_json_of_history:
  "plain (json_of_history h) \<longleftrightarrow> list_all (\<lambda>item. plain (HistoryItem.recommendation item)) h"
proof -
  have "plain_elements (map json_of_HistoryItem h)
      \<longleftrightarrow> list_all (\<lambda>item. plain (HistoryItem.recommendation item)) h"
    by (induction h) auto
  then show ?thesis by (simp add: json_of_history_def)
qed

lemma as_strings_json_of_strings [simp]: "as_strings (json_of_strings xs) = Some xs"
proof -
  have "those (map as_string (map JStr xs)) = Some xs"
    by (induction xs) (auto simp: as_string_def)
  then show ?thesis by (simp add: as_strings_def json_of_strings_def)
qed

lemma as_CareerRecommendation_json [simp]:
  "as_CareerRecommendation (json_of_CareerRecommendation r) = Some r"
  by (simp add: as_CareerRecommendation_def json_of_CareerRecommendation_def as_string_def)

lemma as_ResumeData_json [simp]: "as_ResumeData (json_of_ResumeData i) = Some i"
  by (simp add: as_ResumeData_def json_of_ResumeData_def as_string_def)

lemma as_HistoryItem_json [simp]: "as_HistoryItem (json_of_HistoryItem item) = Some item"
  by (cases item) (simp add: as_HistoryItem_def json_of_HistoryItem_def as_string_def Let_def)

lemma as_HistoryItem_exact: "as_HistoryItem v = Some item \<Longrightarrow> v = json_of_HistoryItem item"
  by (auto simp: as_HistoryItem_def Let_def split: option.splits if_splits)

lemma as_history_json [simp]: "as_history (json_of_history h) = Some h"
proof -
  have "those (map as_HistoryItem (map json_of_HistoryItem h)) = Some h"
    by (induction h) auto
  then show ?thesis by (simp add: as_history_def json_of_history_def)
qed

lemma as_history_exact: "as_history v = Some h \<Longrightarrow> v = json_of_history h"
proof -
  have "those (map as_HistoryItem vs) = Some h \<Longrightarrow> vs = map json_of_HistoryItem h" for vs
  proof (induction vs arbitrary: h)
    case Nil
    then show ?case by simp
  next
    case (Cons v vs)
    then show ?case
      by (auto simp: as_HistoryItem_exact split: option.splits)
  qed
  then show "as_history v = Some h \<Longrightarrow> v = json_of_history h"
    by (auto simp: as_history_def json_of_history_def split: json.splits)
qed

lemma JSON_stringify_nonempty: "plain v \<Longrightarrow> JSON_stringify v \<noteq> []"
  using stringify_start[of v] by auto

lemma getItem_setItem: "setItem ls k v = Inr ls' \<Longrightarrow> getItem ls' k = Some v"
  by (auto simp: setItem_def getItem_def Let_def update_conv' split: if_splits)

lemma setItem_quota: "setItem ls k v = Inr ls' \<Longrightarrow> quota ls' = quota ls"
  by (auto simp: setItem_def Let_def split: if_splits)

lemma setItem_again: "setItem ls k v = Inr ls' \<Longrightarrow> setItem ls' k v = Inr ls'"
  by (auto simp: setItem_def Let_def split: if_splits)

lemma all_dropWhile: "(\<forall>x\<in>set (dropWhile P s). P x) \<longleftrightarrow> (\<forall>x\<in>set s. P x)"
  by (induction s) auto

lemma trim_empty_iff: "trim s = [] \<longleftrightarrow> list_all is_js_space s"
  by (simp add: trim_def all_dropWhile list_all_iff)

section \<open>The handlers, the providers and the example sessions\<close>

lemma stringify_empty_history: "JSON_stringify (json_of_history []) = js ''[]''"
  by (simp add: json_of_history_def js_def)

lemma saveToLocalStorage_accepted:
  assumes "setItem (localStorage b) (js ''ece_career_history'')
             (JSON_stringify (json_of_history h)) = Inr ls"
  shows "saveToLocalStorage h b st = (Returned, b\<lparr>localStorage := ls\<rparr>, st\<lparr>history := h\<rparr>)"
  using assms by (simp add: saveToLocalStorage_def)

lemma saveToLocalStorage_refused:
  assumes "setItem (localStorage b) (js ''ece_career_history'')
             (JSON_stringify (json_of_history h)) = Inl e"
  shows "saveToLocalStorage h b st = (Threw e, b, st)"
  using assms by (simp add: saveToLocalStorage_def)

lemma setItem_roomy:
  "length v \<le> 5000000 \<Longrightarrow>
   setItem (localStorage roomy) (js ''ece_career_history'') v = Inr (stored v)"
  by (simp add: setItem_def roomy_def stored_def used_def)

lemma setItem_full:
  "setItem (localStorage full) (js ''ece_career_history'') v = Inl QuotaExceededError"
  by (simp add: setItem_def full_def used_def)

lemma getItem_stored: "getItem (stored v) (js ''ece_career_history'') = Some v"
  by (simp add: getItem_def stored_def)

lemma getItem_roomy: "getItem (localStorage roomy) (js ''ece_career_history'') = None"
  by (simp add: getItem_def roomy_def)

lemma getItem_full: "getItem (localStorage full) (js ''ece_career_history'') = None"
  by (simp add: getItem_def full_def)

lemma quote_unit_plain:
  "0x20 \<le> c \<Longrightarrow> c < 0x80 \<Longrightarrow> c \<noteq> 0x22 \<Longrightarrow> c \<noteq> 0x5C \<Longrightarrow> quote_unit c = [c]"
  by (auto simp: quote_unit_def is_high_surrogate_def is_low_surrogate_def
        word_le_nat_alt word_less_nat_alt)

lemma history_shelf: "history shelf = [example_item, earlier_item, oldest_item]"
  by (simp add: shelf_def)

lemma history_busy: "history busy = [earlier_item, oldest_item]"
  by (simp add: busy_def)

lemma item_ids:
  "id' example_item = js ''7d1c''" "id' earlier_item = js ''a3f0''" "id' oldest_item = js ''51be''"
  by (simp_all add: example_item_def newItem_def earlier_item_def oldest_item_def)

lemma example_item_stringify: "JSON_stringify (json_of_HistoryItem example_item) = example_item_text"
  by (simp add: example_item_text_def example_item_def newItem_def example_state_def
        example_answer_def json_of_HistoryItem_def json_of_ResumeData_def
        JSON_quote_def js_def quote_unit_plain is_high_surrogate_def)

lemma earlier_item_stringify: "JSON_stringify (json_of_HistoryItem earlier_item) = earlier_item_text"
  by (simp add: earlier_item_text_def earlier_item_def
        json_of_HistoryItem_def json_of_ResumeData_def
        JSON_quote_def js_def quote_unit_plain is_high_surrogate_def)

lemma oldest_item_stringify: "JSON_stringify (json_of_HistoryItem oldest_item) = oldest_item_text"
  by (simp add: oldest_item_text_def oldest_item_def
        json_of_HistoryItem_def json_of_ResumeData_def
        JSON_quote_def js_def quote_unit_plain is_high_surrogate_def)

lemma shelf_stringify:
  "JSON_stringify (json_of_history [example_item, earlier_item, oldest_item]) = shelf_text"
  by (simp add: json_of_history_def shelf_text_def example_item_stringify
        earlier_item_stringify oldest_item_stringify js_def)

lemma pair_stringify:
  "JSON_stringify (json_of_history [example_item, oldest_item]) = pair_text"
  by (simp add: json_of_history_def pair_text_def example_item_stringify
        oldest_item_stringify js_def)

lemma texts_fit: "length shelf_text \<le> 5000000" "length pair_text \<le> 5000000"
  by (simp_all add: shelf_text_def pair_text_def example_item_text_def earlier_item_text_def
        oldest_item_text_def)

lemma items_plain:
  "plain (HistoryItem.recommendation example_item)"
  "plain (HistoryItem.recommendation earlier_item)"
  "plain (HistoryItem.recommendation oldest_item)"
  by (simp_all add: example_item_def newItem_def example_state_def example_answer_def
        earlier_item_def oldest_item_def is_digit_of_char)

lemma falsy_examples:
  "falsy JNull" "falsy (JBool False)" "\<not> falsy (JBool True)"
  "falsy (JStr [])" "\<not> falsy (JStr (js ''0''))"
  "\<not> falsy (JArr [])" "\<not> falsy (JObj [])"
  by (simp_all add: js_def)

lemma falsy_numbers:
  "falsy (JNum (js ''0''))"
  "falsy (JNum (js ''-0.0e5''))"
  "\<not> falsy (JNum (js ''7''))"
  "\<not> falsy (JNum (js ''0.5''))"
  "\<not> falsy (JNum (js ''1e-300''))"
  "falsy (JNum (js ''1E-400''))"
  "falsy (JNum (js ''2e-324''))"
  "\<not> falsy (JNum (js ''3e-324''))"
  by (simp_all add: number_is_zero_def js_def is_digit_def digits_value_def)

lemma example_truthy: "\<not> falsy (recommendation example_state)"
  by (simp add: example_state_def example_answer_def)

lemma example_title: "\<not> list_all is_js_space (saveTitle example_state)"
  by (simp add: example_state_def js_def is_js_space_def)

lemma blank: "list_all is_js_space (js ''  '')"
  by (simp add: js_def is_js_space_def)

lemma loadHistory_stored:
  assumes "getItem (localStorage b) (js ''ece_career_history'')
             = Some (JSON_stringify (json_of_history h))"
    and "plain (json_of_history h)"
  shows "loadHistory b st = Loaded b (st\<lparr>history := h\<rparr>)"
  using assms
  by (simp add: loadHistory_def JSON_parse_stringify JSON_stringify_nonempty)

lemma handleSave_accepted:
  assumes "\<not> falsy (recommendation st)"
    and "\<not> list_all is_js_space (saveTitle st)"
    and "setItem (localStorage b) (js ''ece_career_history'')
           (JSON_stringify (json_of_history (newItem uuid now st # history st))) = Inr ls"
  shows "handleSave uuid now b st =
           (Returned, b\<lparr>localStorage := ls\<rparr>,
            st\<lparr>history := newItem uuid now st # history st,
               isSaveModalOpen := False, saveTitle := []\<rparr>)"
  using assms by (simp add: handleSave_def trim_empty_iff saveToLocalStorage_accepted)

lemma busy_truthy: "\<not> falsy (recommendation busy)"
  using example_truthy by (simp add: busy_def)

lemma busy_title: "\<not> list_all is_js_space (saveTitle busy)"
  using example_title by (simp add: busy_def)

lemma busy_newItem:
  "newItem (js ''7d1c'') (js ''Nov 3, 2026, 10:15 AM'') busy = example_item"
  by (simp add: example_item_def newItem_def busy_def)

lemma shelf_plain: "plain (json_of_history [example_item, earlier_item, oldest_item])"
  by (simp add: plain_json_of_history items_plain)

lemma busy_plain:
  "plain (json_of_history (newItem (js ''7d1c'') (js ''Nov 3, 2026, 10:15 AM'') busy # history busy))"
  unfolding busy_newItem history_busy by (rule shelf_plain)

lemma busy_write:
  "setItem (localStorage roomy) (js ''ece_career_history'')
     (JSON_stringify (json_of_history
        (newItem (js ''7d1c'') (js ''Nov 3, 2026, 10:15 AM'') busy # history busy)))
   = Inr (stored shelf_text)"
  unfolding busy_newItem history_busy shelf_stringify by (rule setItem_roomy[OF texts_fit(1)])

lemma filter_out_unique:
  assumes "distinct (map id' h)" and "e \<in> set h"
  shows "\<exists>xs ys. h = xs @ e # ys \<and> filter (\<lambda>item. id' item \<noteq> id' e) h = xs @ ys"
proof -
  from assms(2) obtain xs ys where h: "h = xs @ e # ys" by (auto dest: split_list)
  from assms(1) have "\<forall>x \<in> set xs \<union> set ys. id' x \<noteq> id' e"
    unfolding h by (auto simp: image_iff)
  then have "filter (\<lambda>item. id' item \<noteq> id' e) xs = xs" "filter (\<lambda>item. id' item \<noteq> id' e) ys = ys"
    by (auto simp: filter_id_conv)
  then have "filter (\<lambda>item. id' item \<noteq> id' e) h = xs @ ys" by (simp add: h)
  with h show ?thesis by blast
qed

lemma distinct_ids_kept:
  "distinct (map id' (history st)) \<Longrightarrow>
   distinct (map id' (history (state_after (deleteHistoryItem i b st))))
   \<and> distinct (map id' (history (state_after (clearAll c b st))))"
  by (auto simp: deleteHistoryItem_def clearAll_def saveToLocalStorage_def state_after_def
        distinct_map_filter split: sum.splits)

lemma shelf_without_earlier:
  "filter (\<lambda>item. id' item \<noteq> js ''a3f0'') (history shelf) = [example_item, oldest_item]"
  by (simp add: history_shelf item_ids)

lemma pair_plain: "plain (json_of_history [example_item, oldest_item])"
  by (simp add: plain_json_of_history items_plain)

lemma corrupt_text: "JSON_parse (js ''[{'') = None"
  by code_simp

lemma loadHistory_untyped:
  "loadHistory (roomy\<lparr>localStorage := stored (js ''{}'')\<rparr>) initial = Untyped (JObj [])"
proof -
  have "js ''{}'' \<noteq> []" by (simp add: js_def)
  moreover have "JSON_parse (js ''{}'') = Some (JObj [])" by code_simp
  ultimately show ?thesis
    by (simp add: loadHistory_def getItem_stored as_history_def)
qed

lemma empty_object: "JSON_parse (js ''{}'') = Some (JObj [])"
  by code_simp

lemma as_strings_conforms:
  assumes "conforms (ARRAY STRING) x"
  shows "as_strings x \<noteq> None"
proof -
  from assms obtain vs where x: "x = JArr vs" and all: "list_all (conforms STRING) vs"
    by (cases x) auto
  from all have "those (map as_string vs) \<noteq> None"
  proof (induction vs)
    case Nil
    then show ?case by simp
  next
    case (Cons v vs)
    then show ?case by (cases v) (auto simp: as_string_def)
  qed
  then show ?thesis by (simp add: x as_strings_def)
qed

lemma as_string_conforms: "conforms STRING x \<Longrightarrow> as_string x \<noteq> None"
  by (cases x) (auto simp: as_string_def)

lemma conforms_CareerRecommendation:
  assumes "conforms getCareerRecommendations_schema v"
  shows "as_CareerRecommendation v \<noteq> None"
proof -
  from assms obtain ps where v: "v = JObj ps"
    by (cases v) (auto simp: getCareerRecommendations_schema_def)
  from assms obtain a b c d where
    f: "map_of ps (js ''careerPaths'') = Some a" "map_of ps (js ''internshipRoles'') = Some b"
       "map_of ps (js ''skillsToLearn'') = Some c" "map_of ps (js ''summary'') = Some d"
    by (auto simp: v getCareerRecommendations_schema_def)
  from assms f have "conforms (ARRAY STRING) a" "conforms (ARRAY STRING) b"
    "conforms (ARRAY STRING) c" "conforms STRING d"
    by (auto simp: v getCareerRecommendations_schema_def)
  then obtain a' b' c' d' where
    "as_strings a = Some a'" "as_strings b = Some b'" "as_strings c = Some c'" "as_string d = Some d'"
    using as_strings_conforms as_string_conforms by (metis not_None_eq)
  then show ?thesis by (simp add: as_CareerRecommendation_def v f)
qed

lemma conforms_ResumeData:
  assumes "conforms scanResume_schema v"
  shows "as_ResumeData v \<noteq> None"
proof -
  from assms obtain ps where v: "v = JObj ps"
    by (cases v) (auto simp: scanResume_schema_def)
  from assms obtain a b c where
    f: "map_of ps (js ''education'') = Some a" "map_of ps (js ''skills'') = Some b"
       "map_of ps (js ''interests'') = Some c"
    by (auto simp: v scanResume_schema_def)
  from assms f have "conforms STRING a" "conforms STRING b" "conforms STRING c"
    by (auto simp: v scanResume_schema_def)
  then obtain a' b' c' where
    "as_string a = Some a'" "as_string b = Some b'" "as_string c = Some c'"
    using as_string_conforms by (metis not_None_eq)
  then show ?thesis by (simp add: as_ResumeData_def v f)
qed

lemma or_else_default: "a = None \<or> a = Some [] \<Longrightarrow> or_else a d = d"
  by (auto simp: or_else_def)

lemma or_else_text: "t \<noteq> [] \<Longrightarrow> or_else (Some t) d = t"
  by (simp add: or_else_def)

lemma conforms_strings: "list_all (conforms STRING) (map JStr xs)"
  by (induction xs) auto

lemma conforms_json_of_CareerRecommendation:
  "conforms getCareerRecommendations_schema (json_of_CareerRecommendation r)"
  by (simp add: getCareerRecommendations_schema_def json_of_CareerRecommendation_def
        json_of_strings_def conforms_strings)

lemma conforms_json_of_ResumeData:
  "conforms scanResume_schema (json_of_ResumeData r)"
  by (simp add: scanResume_schema_def json_of_ResumeData_def)

lemma not_empty_stringify: "plain v \<Longrightarrow> or_else (Some (JSON_stringify v)) d = JSON_stringify v"
  by (simp add: or_else_def JSON_stringify_nonempty)

lemma getCareerRecommendations_silent:
  "getCareerRecommendations silent e s i = ([], Inr (JObj []))"
  by (simp add: getCareerRecommendations_def silent_def or_else_def empty_object)

lemma getCareerRecommendations_helpful:
  "getCareerRecommendations helpful e s i
     = ([], Inr (json_of_CareerRecommendation example_recommendation))"
  by (simp add: getCareerRecommendations_def helpful_def not_empty_stringify JSON_parse_stringify)

lemma partial_or_else:
  "or_else (Some (js ''{\"summary\":\"Go on.\"}'')) d = js ''{\"summary\":\"Go on.\"}''"
proof -
  have "js ''{\"summary\":\"Go on.\"}'' \<noteq> []" by (simp add: js_def)
  then show ?thesis by (simp add: or_else_def)
qed

lemma partial_text:
  "JSON_parse (js ''{\"summary\":\"Go on.\"}'') = Some (JObj [(js ''summary'', JStr (js ''Go on.''))])"
  by code_simp

lemma getCareerRecommendations_partial_answer:
  "getCareerRecommendations partial_answer e s i
     = ([], Inr (JObj [(js ''summary'', JStr (js ''Go on.''))]))"
  by (simp add: getCareerRecommendations_def partial_answer_def partial_or_else partial_text)

lemma garbled_text: "JSON_parse (js ''Sorry, I cannot'') = None"
  by code_simp

lemma garbled_nonempty: "js ''Sorry, I cannot'' \<noteq> []"
  by (simp add: js_def)

lemma scanResume_garbled:
  "scanResume garbled d m
     = ([js ''Failed to parse scan response''],
        Inl (Error (js ''Could not scan the resume. Please try manual input.'')))"
  by (simp add: scanResume_def garbled_def or_else_text garbled_nonempty garbled_text)

lemma getCareerRecommendations_garbled:
  "getCareerRecommendations garbled e s i
     = ([js ''Failed to parse Gemini response''],
        Inl (Error (js ''Could not generate recommendations. Please try again.'')))"
  by (simp add: getCareerRecommendations_def garbled_def or_else_text garbled_nonempty garbled_text)

lemma scanResume_partial_answer:
  "scanResume partial_answer d m = ([], Inr (JObj [(js ''summary'', JStr (js ''Go on.''))]))"
  by (simp add: scanResume_def partial_answer_def partial_or_else partial_text)

section \<open>The claims\<close>

subsection \<open>C1: what \<open>getCareerRecommendations\<close> returns\<close>

text \<open>
  Claim C1, as amended. Whenever \<open>getCareerRecommendations\<close> returns on a response
  whose text is not empty, nothing was logged and the value returned is the value that
  \<open>JSON.parse\<close> gives for that text, unchecked. That value has the four fields, three
  lists of strings and a string, whenever it conforms to the response schema that the
  request carries.
\<close>

theorem getCareerRecommendations_returns:
  assumes "getCareerRecommendations generateContent e s i = (out, Inr v)"
    and "generateContent (getCareerRecommendations_request e s i) = Inr response"
    and "text' response = Some t" and "t \<noteq> []"
  shows "JSON_parse t = Some v
       \<and> out = []
       \<and> (conforms (responseSchema (config (getCareerRecommendations_request e s i))) v
            \<longrightarrow> as_CareerRecommendation v \<noteq> None)"
proof -
  from assms have "JSON_parse t = Some v" and "out = []"
    by (auto simp: getCareerRecommendations_def or_else_text split: option.splits)
  moreover have "conforms (responseSchema (config (getCareerRecommendations_request e s i))) v
              \<longrightarrow> as_CareerRecommendation v \<noteq> None"
    by (simp add: getCareerRecommendations_request_def conforms_CareerRecommendation)
  ultimately show ?thesis by blast
qed

theorem getCareerRecommendations_returns_witness:
  "getCareerRecommendations helpful (js ''3rd Year B.Tech in ECE'') (js ''Verilog, Arduino, Python'')
       (js ''VLSI, Embedded Systems'')
     = ([], Inr (json_of_CareerRecommendation example_recommendation))
   \<and> helpful (getCareerRecommendations_request
         (js ''3rd Year B.Tech in ECE'') (js ''Verilog, Arduino, Python'') (js ''VLSI, Embedded Systems''))
     = Inr \<lparr>text' = Some (JSON_stringify (json_of_CareerRecommendation example_recommendation))\<rparr>
   \<and> JSON_stringify (json_of_CareerRecommendation example_recommendation) \<noteq> []
   \<and> conforms (responseSchema (config (getCareerRecommendations_request
         (js ''3rd Year B.Tech in ECE'') (js ''Verilog, Arduino, Python'') (js ''VLSI, Embedded Systems''))))
       (json_of_CareerRecommendation example_recommendation)
   \<and> JSON_parse (JSON_stringify (json_of_CareerRecommendation example_recommendation))
     = Some (json_of_CareerRecommendation example_recommendation)
   \<and> as_CareerRecommendation (json_of_CareerRecommendation example_recommendation) \<noteq> None"
proof -
  note h = getCareerRecommendations_helpful[of "js ''3rd Year B.Tech in ECE''"
      "js ''Verilog, Arduino, Python''" "js ''VLSI, Embedded Systems''"]
  have p: "helpful (getCareerRecommendations_request
         (js ''3rd Year B.Tech in ECE'') (js ''Verilog, Arduino, Python'') (js ''VLSI, Embedded Systems''))
     = Inr \<lparr>text' = Some (JSON_stringify (json_of_CareerRecommendation example_recommendation))\<rparr>"
    by (simp add: helpful_def)
  have t: "text' \<lparr>text' = Some (JSON_stringify (json_of_CareerRecommendation example_recommendation))\<rparr>
      = Some (JSON_stringify (json_of_CareerRecommendation example_recommendation))"
    by simp
  have n: "JSON_stringify (json_of_CareerRecommendation example_recommendation) \<noteq> []"
    by (simp add: JSON_stringify_nonempty)
  have c: "conforms (responseSchema (config (getCareerRecommendations_request
         (js ''3rd Year B.Tech in ECE'') (js ''Verilog, Arduino, Python'') (js ''VLSI, Embedded Systems''))))
       (json_of_CareerRecommendation example_recommendation)"
    by (simp add: getCareerRecommendations_request_def conforms_json_of_CareerRecommendation)
  note r = getCareerRecommendations_returns[OF h p t n]
  from r have r1: "JSON_parse (JSON_stringify (json_of_CareerRecommendation example_recommendation))
     = Some (json_of_CareerRecommendation example_recommendation)"
    by (rule conjunct1)
  from r c have r2: "as_CareerRecommendation (json_of_CareerRecommendation example_recommendation) \<noteq> None"
    by blast
  from h p n c r1 r2 show ?thesis by (intro conjI)
qed

theorem getCareerRecommendations_incomplete:
  "getCareerRecommendations silent (js ''3rd Year B.Tech in ECE'') (js ''Verilog, Arduino, Python'')
       (js ''VLSI, Embedded Systems'')
     = ([], Inr (JObj []))
   \<and> field (JObj []) (js ''careerPaths'') = None
   \<and> field (JObj []) (js ''internshipRoles'') = None
   \<and> field (JObj []) (js ''skillsToLearn'') = None
   \<and> field (JObj []) (js ''summary'') = None
   \<and> as_CareerRecommendation (JObj []) = None
   \<and> getCareerRecommendations partial_answer (js ''3rd Year B.Tech in ECE'')
         (js ''Verilog, Arduino, Python'') (js ''VLSI, Embedded Systems'')
     = ([], Inr (JObj [(js ''summary'', JStr (js ''Go on.''))]))
   \<and> field (JObj [(js ''summary'', JStr (js ''Go on.''))]) (js ''careerPaths'') = None"
  by (simp add: getCareerRecommendations_silent getCareerRecommendations_partial_answer
        as_CareerRecommendation_def)

subsection \<open>C2: how \<open>getCareerRecommendations\<close> fails\<close>

text \<open>
  Claim C2, as amended. When the provider call fails, \<open>getCareerRecommendations\<close>
  fails with the provider's own error, unchanged. When the call succeeds with a text
  that is not empty and not JSON, it logs and fails with the ``generation failed'' error.
  When that text is JSON, it returns the value of the text, whatever its shape.
\<close>

theorem getCareerRecommendations_outcomes:
  "(\<forall>x. generateContent (getCareerRecommendations_request e s i) = Inl x \<longrightarrow>
        getCareerRecommendations generateContent e s i = ([], Inl (Rejected x)))
   \<and> (\<forall>response t. generateContent (getCareerRecommendations_request e s i) = Inr response
          \<and> text' response = Some t \<and> t \<noteq> [] \<and> JSON_parse t = None \<longrightarrow>
        getCareerRecommendations generateContent e s i
          = ([js ''Failed to parse Gemini response''],
             Inl (Error (js ''Could not generate recommendations. Please try again.''))))
   \<and> (\<forall>response t v. generateContent (getCareerRecommendations_request e s i) = Inr response
          \<and> text' response = Some t \<and> t \<noteq> [] \<and> JSON_parse t = Some v \<longrightarrow>
        getCareerRecommendations generateContent e s i = ([], Inr v))"
  by (auto simp: getCareerRecommendations_def or_else_text)

theorem getCareerRecommendations_outcomes_witness:
  "(unreachable (getCareerRecommendations_request (js ''B.Tech'') (js ''Verilog'') (js ''VLSI''))
       = Inl (js ''fetch failed'')
     \<and> getCareerRecommendations unreachable (js ''B.Tech'') (js ''Verilog'') (js ''VLSI'')
       = ([], Inl (Rejected (js ''fetch failed''))))
   \<and> (garbled (getCareerRecommendations_request (js ''B.Tech'') (js ''Verilog'') (js ''VLSI''))
       = Inr \<lparr>text' = Some (js ''Sorry, I cannot'')\<rparr>
     \<and> text' \<lparr>text' = Some (js ''Sorry, I cannot'')\<rparr> = Some (js ''Sorry, I cannot'')
     \<and> js ''Sorry, I cannot'' \<noteq> []
     \<and> JSON_parse (js ''Sorry, I cannot'') = None
     \<and> getCareerRecommendations garbled (js ''B.Tech'') (js ''Verilog'') (js ''VLSI'')
       = ([js ''Failed to parse Gemini response''],
          Inl (Error (js ''Could not generate recommendations. Please try again.''))))
   \<and> (helpful (getCareerRecommendations_request (js ''B.Tech'') (js ''Verilog'') (js ''VLSI''))
       = Inr \<lparr>text' = Some (JSON_stringify (json_of_CareerRecommendation example_recommendation))\<rparr>
     \<and> JSON_stringify (json_of_CareerRecommendation example_recommendation) \<noteq> []
     \<and> JSON_parse (JSON_stringify (json_of_CareerRecommendation example_recommendation))
       = Some (json_of_CareerRecommendation example_recommendation)
     \<and> getCareerRecommendations helpful (js ''B.Tech'') (js ''Verilog'') (js ''VLSI'')
       = ([], Inr (json_of_CareerRecommendation example_recommendation)))"
proof -
  have u: "unreachable (getCareerRecommendations_request (js ''B.Tech'') (js ''Verilog'') (js ''VLSI''))
       = Inl (js ''fetch failed'')"
    by (simp add: unreachable_def)
  have g: "garbled (getCareerRecommendations_request (js ''B.Tech'') (js ''Verilog'') (js ''VLSI''))
       = Inr \<lparr>text' = Some (js ''Sorry, I cannot'')\<rparr>"
    by (simp add: garbled_def)
  have gt: "text' \<lparr>text' = Some (js ''Sorry, I cannot'')\<rparr> = Some (js ''Sorry, I cannot'')"
    by simp
  have h: "helpful (getCareerRecommendations_request (js ''B.Tech'') (js ''Verilog'') (js ''VLSI''))
       = Inr \<lparr>text' = Some (JSON_stringify (json_of_CareerRecommendation example_recommendation))\<rparr>"
    by (simp add: helpful_def)
  have ht: "text' \<lparr>text' = Some (JSON_stringify (json_of_CareerRecommendation example_recommendation))\<rparr>
      = Some (JSON_stringify (json_of_CareerRecommendation example_recommendation))"
    by simp
  have hn: "JSON_stringify (json_of_CareerRecommendation example_recommendation) \<noteq> []"
    by (simp add: JSON_stringify_nonempty)
  have hp: "JSON_parse (JSON_stringify (json_of_CareerRecommendation example_recommendation))
       = Some (json_of_CareerRecommendation example_recommendation)"
    by (simp add: JSON_parse_stringify)
  from getCareerRecommendations_outcomes[of unreachable "js ''B.Tech''" "js ''Verilog''" "js ''VLSI''"] u
  have a: "getCareerRecommendations unreachable (js ''B.Tech'') (js ''Verilog'') (js ''VLSI'')
       = ([], Inl (Rejected (js ''fetch failed'')))"
    by blast
  from getCareerRecommendations_outcomes[of garbled "js ''B.Tech''" "js ''Verilog''" "js ''VLSI''"]
    g gt garbled_nonempty garbled_text
  have b: "getCareerRecommendations garbled (js ''B.Tech'') (js ''Verilog'') (js ''VLSI'')
       = ([js ''Failed to parse Gemini response''],
          Inl (Error (js ''Could not generate recommendations. Please try again.'')))"
    by blast
  from getCareerRecommendations_outcomes[of helpful "js ''B.Tech''" "js ''Verilog''" "js ''VLSI''"]
    h ht hn hp
  have c: "getCareerRecommendations helpful (js ''B.Tech'') (js ''Verilog'') (js ''VLSI'')
       = ([], Inr (json_of_CareerRecommendation example_recommendation))"
    by blast
  from u a g gt garbled_nonempty garbled_text b h hn hp c show ?thesis by (intro conjI)
qed

theorem getCareerRecommendations_not_all_or_nothing:
  "getCareerRecommendations unreachable (js ''B.Tech'') (js ''Verilog'') (js ''VLSI'')
     = ([], Inl (Rejected (js ''fetch failed'')))
   \<and> Rejected (js ''fetch failed'')
       \<noteq> (Error (js ''Could not generate recommendations. Please try again.'') :: jsstring failure)
   \<and> getCareerRecommendations partial_answer (js ''B.Tech'') (js ''Verilog'') (js ''VLSI'')
     = ([], Inr (JObj [(js ''summary'', JStr (js ''Go on.''))]))
   \<and> field (JObj [(js ''summary'', JStr (js ''Go on.''))]) (js ''careerPaths'') = None
   \<and> as_CareerRecommendation (JObj [(js ''summary'', JStr (js ''Go on.''))]) = None"
proof -
  have a: "getCareerRecommendations unreachable (js ''B.Tech'') (js ''Verilog'') (js ''VLSI'')
     = ([], Inl (Rejected (js ''fetch failed'')))"
    by (simp add: getCareerRecommendations_def unreachable_def)
  have c: "field (JObj [(js ''summary'', JStr (js ''Go on.''))]) (js ''careerPaths'') = None"
    by simp
  have d: "as_CareerRecommendation (JObj [(js ''summary'', JStr (js ''Go on.''))]) = None"
    by (simp add: as_CareerRecommendation_def)
  from a getCareerRecommendations_partial_answer c d show ?thesis by simp
qed

subsection \<open>C3: failures of the storage\<close>

text \<open>
  Claim C3, as amended. A stored text that is not JSON is absorbed at startup: the
  failure is logged and the history stays the empty list; a missing key and the empty
  string leave it empty without a log entry. A failing write is not absorbed: what
  \<open>localStorage.setItem\<close> throws comes out of \<open>saveToLocalStorage\<close>, and so out of
  save, delete and clear, with the history list and the storage as they were.
\<close>

theorem storage_failures:
  "(getItem (localStorage b) (js ''ece_career_history'') = Some s \<and> s \<noteq> [] \<and> JSON_parse s = None
      \<longrightarrow> loadHistory b initial
            = Loaded (b\<lparr>console := console b @ [js ''Failed to parse history'']\<rparr>) initial)
   \<and> (getItem (localStorage b) (js ''ece_career_history'') = None
        \<or> getItem (localStorage b) (js ''ece_career_history'') = Some []
      \<longrightarrow> loadHistory b initial = Loaded b initial)
   \<and> (setItem (localStorage b) (js ''ece_career_history'') (JSON_stringify (json_of_history h)) = Inl e
      \<longrightarrow> saveToLocalStorage h b st = (Threw e, b, st))
   \<and> (\<not> falsy (recommendation st) \<and> \<not> list_all is_js_space (saveTitle st)
        \<and> setItem (localStorage b) (js ''ece_career_history'')
             (JSON_stringify (json_of_history (newItem uuid now st # history st))) = Inl e
      \<longrightarrow> handleSave uuid now b st = (Threw e, b, st))
   \<and> (setItem (localStorage b) (js ''ece_career_history'')
         (JSON_stringify (json_of_history (filter (\<lambda>item. id' item \<noteq> i) (history st)))) = Inl e
      \<longrightarrow> deleteHistoryItem i b st = (Threw e, b, st))
   \<and> (setItem (localStorage b) (js ''ece_career_history'') (js ''[]'') = Inl e
      \<longrightarrow> clearAll True b st = (Threw e, b, st))"
  by (auto simp: loadHistory_def handleSave_def deleteHistoryItem_def clearAll_def
        saveToLocalStorage_def trim_empty_iff stringify_empty_history)

theorem storage_failures_witness:
  "(getItem (localStorage corrupt) (js ''ece_career_history'') = Some (js ''[{'')
      \<and> js ''[{'' \<noteq> [] \<and> JSON_parse (js ''[{'') = None
      \<and> loadHistory corrupt initial
            = Loaded (corrupt\<lparr>console := console corrupt @ [js ''Failed to parse history'']\<rparr>) initial)
   \<and> (getItem (localStorage roomy) (js ''ece_career_history'') = None
      \<and> loadHistory roomy initial = Loaded roomy initial)
   \<and> (setItem (localStorage full) (js ''ece_career_history'')
         (JSON_stringify (json_of_history [example_item])) = Inl QuotaExceededError
      \<and> saveToLocalStorage [example_item] full example_state
            = (Threw QuotaExceededError, full, example_state))
   \<and> (\<not> falsy (recommendation example_state)
      \<and> \<not> list_all is_js_space (saveTitle example_state)
      \<and> setItem (localStorage full) (js ''ece_career_history'')
           (JSON_stringify (json_of_history
              (newItem (js ''7d1c'') (js ''Nov 3, 2026, 10:15 AM'') example_state
                 # history example_state))) = Inl QuotaExceededError
      \<and> handleSave (js ''7d1c'') (js ''Nov 3, 2026, 10:15 AM'') full example_state
            = (Threw QuotaExceededError, full, example_state))
   \<and> (setItem (localStorage full) (js ''ece_career_history'')
         (JSON_stringify (json_of_history
            (filter (\<lambda>item. id' item \<noteq> js ''7d1c'')
               (history (example_state\<lparr>history := [example_item]\<rparr>))))) = Inl QuotaExceededError
      \<and> deleteHistoryItem (js ''7d1c'') full (example_state\<lparr>history := [example_item]\<rparr>)
            = (Threw QuotaExceededError, full, example_state\<lparr>history := [example_item]\<rparr>))
   \<and> (setItem (localStorage full) (js ''ece_career_history'') (js ''[]'') = Inl QuotaExceededError
      \<and> clearAll True full (example_state\<lparr>history := [example_item]\<rparr>)
            = (Threw QuotaExceededError, full, example_state\<lparr>history := [example_item]\<rparr>))"
proof -
  have g: "getItem (localStorage corrupt) (js ''ece_career_history'') = Some (js ''[{'')"
    by (simp add: corrupt_def getItem_def)
  have n: "js ''[{'' \<noteq> []" by (simp add: js_def)
  from storage_failures[of corrupt "js ''[{''"] g n corrupt_text
  have a: "loadHistory corrupt initial
            = Loaded (corrupt\<lparr>console := console corrupt @ [js ''Failed to parse history'']\<rparr>) initial"
    by blast
  from storage_failures[of roomy] getItem_roomy
  have b: "loadHistory roomy initial = Loaded roomy initial"
    by blast
  note r = example_truthy
  let ?st = "example_state\<lparr>history := [example_item]\<rparr>"
  note f1 = setItem_full[of "JSON_stringify (json_of_history [example_item])"]
  note f2 = setItem_full[of "JSON_stringify (json_of_history
              (newItem (js ''7d1c'') (js ''Nov 3, 2026, 10:15 AM'') example_state
                 # history example_state))"]
  note f3 = setItem_full[of "JSON_stringify (json_of_history
            (filter (\<lambda>item. id' item \<noteq> js ''7d1c'') (history ?st)))"]
  note f4 = setItem_full[of "js ''[]''"]
  from storage_failures[of full _ "[example_item]" QuotaExceededError example_state] f1
  have c: "saveToLocalStorage [example_item] full example_state
            = (Threw QuotaExceededError, full, example_state)"
    by blast
  from storage_failures[of full _ _ QuotaExceededError example_state
      "js ''7d1c''" "js ''Nov 3, 2026, 10:15 AM''"] r example_title f2
  have d: "handleSave (js ''7d1c'') (js ''Nov 3, 2026, 10:15 AM'') full example_state
            = (Threw QuotaExceededError, full, example_state)"
    by blast
  from storage_failures[of full _ _ QuotaExceededError ?st _ _ "js ''7d1c''"] f3
  have e: "deleteHistoryItem (js ''7d1c'') full ?st = (Threw QuotaExceededError, full, ?st)"
    by blast
  from storage_failures[of full _ _ QuotaExceededError ?st] f4
  have f: "clearAll True full ?st = (Threw QuotaExceededError, full, ?st)"
    by blast
  from g n corrupt_text a getItem_roomy b f1 c r example_title f2 d f3 e f4 f show ?thesis
    by (intro conjI)
qed

theorem write_failure_propagates:
  "handleSave (js ''7d1c'') (js ''Nov 3, 2026, 10:15 AM'') full example_state
     = (Threw QuotaExceededError, full, example_state)
   \<and> deleteHistoryItem (js ''7d1c'') full (example_state\<lparr>history := [example_item]\<rparr>)
     = (Threw QuotaExceededError, full, example_state\<lparr>history := [example_item]\<rparr>)
   \<and> clearAll True full (example_state\<lparr>history := [example_item]\<rparr>)
     = (Threw QuotaExceededError, full, example_state\<lparr>history := [example_item]\<rparr>)"
  using example_title example_truthy
  by (simp add: handleSave_def deleteHistoryItem_def clearAll_def trim_empty_iff
        saveToLocalStorage_refused[OF setItem_full])

subsection \<open>C4: save puts one new entry in front\<close>

text \<open>
  Claim C4, as amended. With a current recommendation and a title that has a
  non-whitespace character in it, and when \<open>localStorage.setItem\<close> accepts the write,
  \<open>handleSave\<close> returns normally with a history that is one longer than before; its
  first element is the new entry, which carries the identifier that
  \<open>crypto.randomUUID()\<close> returned, the formatted date, the title as typed, the three
  profile fields and the recommendation as the state holds it; its other elements are the
  previous list; and the storage key holds the serialised new list. The handler does not
  compare the new identifier with those in the list: the identifiers of the new list are
  distinct exactly when those of the old list were and the generated one is not among
  them. The list that is written is a plain value, as every list of the declared type is,
  so that the text in storage is the text the engine writes.
\<close>

theorem handleSave_prepends:
  assumes "\<not> falsy (recommendation st)"
    and "\<not> list_all is_js_space (saveTitle st)"
    and "plain (json_of_history (newItem uuid now st # history st))"
    and "setItem (localStorage b) (js ''ece_career_history'')
           (JSON_stringify (json_of_history (newItem uuid now st # history st))) = Inr ls"
  shows "handleSave uuid now b st =
           (Returned, b\<lparr>localStorage := ls\<rparr>,
            st\<lparr>history := newItem uuid now st # history st,
               isSaveModalOpen := False, saveTitle := []\<rparr>)
       \<and> length (history (state_after (handleSave uuid now b st))) = length (history st) + 1
       \<and> hd (history (state_after (handleSave uuid now b st))) = newItem uuid now st
       \<and> tl (history (state_after (handleSave uuid now b st))) = history st
       \<and> id' (newItem uuid now st) = uuid
       \<and> date (newItem uuid now st) = now
       \<and> title (newItem uuid now st) = saveTitle st
       \<and> HistoryItem.recommendation (newItem uuid now st) = recommendation st
       \<and> inputs (newItem uuid now st) =
            \<lparr>ResumeData.education = education st, ResumeData.skills = skills st,
             ResumeData.interests = interests st\<rparr>
       \<and> getItem (localStorage (browser_after (handleSave uuid now b st))) (js ''ece_career_history'')
            = Some (JSON_stringify (json_of_history (history (state_after (handleSave uuid now b st)))))
       \<and> distinct (map id' (history (state_after (handleSave uuid now b st))))
            = (distinct (map id' (history st)) \<and> uuid \<notin> id' ` set (history st))"
proof -
  note eq = handleSave_accepted[OF assms(1,2,4)]
  have stored: "getItem ls (js ''ece_career_history'')
      = Some (JSON_stringify (json_of_history (newItem uuid now st # history st)))"
    using assms(4) by (rule getItem_setItem)
  show ?thesis
    unfolding eq by (auto simp: state_after_def browser_after_def stored newItem_def)
qed

theorem handleSave_prepends_witness:
  "\<not> falsy (recommendation busy)
   \<and> \<not> list_all is_js_space (saveTitle busy)
   \<and> plain (json_of_history
        (newItem (js ''7d1c'') (js ''Nov 3, 2026, 10:15 AM'') busy # history busy))
   \<and> setItem (localStorage roomy) (js ''ece_career_history'')
        (JSON_stringify (json_of_history
           (newItem (js ''7d1c'') (js ''Nov 3, 2026, 10:15 AM'') busy # history busy)))
       = Inr (stored shelf_text)
   \<and> history busy = [earlier_item, oldest_item]
   \<and> handleSave (js ''7d1c'') (js ''Nov 3, 2026, 10:15 AM'') roomy busy =
       (Returned, roomy\<lparr>localStorage := stored shelf_text\<rparr>,
        busy\<lparr>history := [example_item, earlier_item, oldest_item],
             isSaveModalOpen := False, saveTitle := []\<rparr>)
   \<and> length (history (state_after
        (handleSave (js ''7d1c'') (js ''Nov 3, 2026, 10:15 AM'') roomy busy))) = 3
   \<and> hd (history (state_after
        (handleSave (js ''7d1c'') (js ''Nov 3, 2026, 10:15 AM'') roomy busy))) = example_item
   \<and> tl (history (state_after
        (handleSave (js ''7d1c'') (js ''Nov 3, 2026, 10:15 AM'') roomy busy)))
       = [earlier_item, oldest_item]
   \<and> HistoryItem.recommendation example_item = example_answer
   \<and> getItem (localStorage (browser_after
        (handleSave (js ''7d1c'') (js ''Nov 3, 2026, 10:15 AM'') roomy busy)))
        (js ''ece_career_history'')
       = Some shelf_text
   \<and> distinct (map id' (history (state_after
        (handleSave (js ''7d1c'') (js ''Nov 3, 2026, 10:15 AM'') roomy busy))))"
proof -
  note r = busy_truthy and h = history_busy and w = busy_write and p = busy_plain
  note t = handleSave_prepends[OF r busy_title p w]
  from t have a: "handleSave (js ''7d1c'') (js ''Nov 3, 2026, 10:15 AM'') roomy busy =
       (Returned, roomy\<lparr>localStorage := stored shelf_text\<rparr>,
        busy\<lparr>history := [example_item, earlier_item, oldest_item],
             isSaveModalOpen := False, saveTitle := []\<rparr>)"
    unfolding h busy_newItem by (rule conjunct1)
  from t have "length (history (state_after
        (handleSave (js ''7d1c'') (js ''Nov 3, 2026, 10:15 AM'') roomy busy)))
      = length (history busy) + 1"
    by (rule conjunct2[THEN conjunct1])
  then have b: "length (history (state_after
        (handleSave (js ''7d1c'') (js ''Nov 3, 2026, 10:15 AM'') roomy busy))) = 3"
    unfolding h by simp
  from t have x: "hd (history (state_after
        (handleSave (js ''7d1c'') (js ''Nov 3, 2026, 10:15 AM'') roomy busy))) = example_item"
    unfolding busy_newItem by (elim conjE)
  from t have c: "tl (history (state_after
        (handleSave (js ''7d1c'') (js ''Nov 3, 2026, 10:15 AM'') roomy busy)))
       = [earlier_item, oldest_item]"
    unfolding h by (elim conjE)
  from t have "HistoryItem.recommendation
      (newItem (js ''7d1c'') (js ''Nov 3, 2026, 10:15 AM'') busy) = recommendation busy"
    by (elim conjE)
  then have y: "HistoryItem.recommendation example_item = example_answer"
    unfolding busy_newItem by (simp add: busy_def example_state_def)
  from t have "getItem (localStorage (browser_after
        (handleSave (js ''7d1c'') (js ''Nov 3, 2026, 10:15 AM'') roomy busy)))
        (js ''ece_career_history'')
       = Some (JSON_stringify (json_of_history (history (state_after
           (handleSave (js ''7d1c'') (js ''Nov 3, 2026, 10:15 AM'') roomy busy)))))"
    by (elim conjE)
  then have d: "getItem (localStorage (browser_after
        (handleSave (js ''7d1c'') (js ''Nov 3, 2026, 10:15 AM'') roomy busy)))
        (js ''ece_career_history'')
       = Some shelf_text"
    unfolding a by (simp add: state_after_def shelf_stringify)
  from t have "distinct (map id' (history (state_after
        (handleSave (js ''7d1c'') (js ''Nov 3, 2026, 10:15 AM'') roomy busy))))
      = (distinct (map id' (history busy)) \<and> js ''7d1c'' \<notin> id' ` set (history busy))"
    by (elim conjE)
  then have e: "distinct (map id' (history (state_after
        (handleSave (js ''7d1c'') (js ''Nov 3, 2026, 10:15 AM'') roomy busy))))"
    unfolding h by (simp add: item_ids)
  from r busy_title p w h a b x c y d e show ?thesis by (intro conjI)
qed

text \<open>
  Against C4 as it was stated: in a browser whose storage refuses the write the same save
  throws, and the list is no longer than before and does not begin with a new entry.
\<close>

theorem handleSave_refused:
  "\<not> falsy (recommendation busy)
   \<and> \<not> list_all is_js_space (saveTitle busy)
   \<and> handleSave (js ''7d1c'') (js ''Nov 3, 2026, 10:15 AM'') full busy
       = (Threw QuotaExceededError, full, busy)
   \<and> length (history (state_after
        (handleSave (js ''7d1c'') (js ''Nov 3, 2026, 10:15 AM'') full busy))) = 2
   \<and> history (state_after
        (handleSave (js ''7d1c'') (js ''Nov 3, 2026, 10:15 AM'') full busy))
       = [earlier_item, oldest_item]
   \<and> getItem (localStorage (browser_after
        (handleSave (js ''7d1c'') (js ''Nov 3, 2026, 10:15 AM'') full busy)))
        (js ''ece_career_history'') = None"
proof -
  have a: "handleSave (js ''7d1c'') (js ''Nov 3, 2026, 10:15 AM'') full busy
       = (Threw QuotaExceededError, full, busy)"
    using busy_title busy_truthy
    by (simp add: handleSave_def trim_empty_iff saveToLocalStorage_refused[OF setItem_full])
  from busy_truthy busy_title a getItem_full show ?thesis
    by (simp add: state_after_def browser_after_def history_busy)
qed

subsection \<open>C5: delete\<close>

text \<open>
  Claim C5, as amended. When \<open>localStorage.setItem\<close> accepts the write,
  \<open>deleteHistoryItem\<close> returns normally; the new list is the old one without the entries
  that have the given identifier, the others in their order, and the storage key holds
  the serialised new list. With the identifiers of the list distinct, as the handlers
  keep them, and an entry with the given identifier, exactly that entry is taken out:
  the list before is \<open>xs @ e # ys\<close> and the list after is \<open>xs @ ys\<close>. The list
  that is written is a plain value, as every list of the declared type is, so that the
  text in storage is the text the engine writes.
\<close>

theorem deleteHistoryItem_removes:
  assumes "plain (json_of_history (filter (\<lambda>item. id' item \<noteq> i) (history st)))"
    and "setItem (localStorage b) (js ''ece_career_history'')
             (JSON_stringify (json_of_history (filter (\<lambda>item. id' item \<noteq> i) (history st)))) = Inr ls"
  shows "deleteHistoryItem i b st =
           (Returned, b\<lparr>localStorage := ls\<rparr>,
            st\<lparr>history := filter (\<lambda>item. id' item \<noteq> i) (history st)\<rparr>)
       \<and> getItem ls (js ''ece_career_history'')
            = Some (JSON_stringify (json_of_history (filter (\<lambda>item. id' item \<noteq> i) (history st))))
       \<and> (distinct (map id' (history st)) \<longrightarrow>
            (\<forall>e \<in> set (history st). id' e = i \<longrightarrow>
               (\<exists>xs ys. history st = xs @ e # ys
                  \<and> history (state_after (deleteHistoryItem i b st)) = xs @ ys)))"
proof -
  have eq: "deleteHistoryItem i b st =
           (Returned, b\<lparr>localStorage := ls\<rparr>,
            st\<lparr>history := filter (\<lambda>item. id' item \<noteq> i) (history st)\<rparr>)"
    using assms(2) by (simp add: deleteHistoryItem_def saveToLocalStorage_accepted)
  have st: "getItem ls (js ''ece_career_history'')
            = Some (JSON_stringify (json_of_history (filter (\<lambda>item. id' item \<noteq> i) (history st))))"
    using assms(2) by (rule getItem_setItem)
  have "\<exists>xs ys. history st = xs @ e # ys
          \<and> history (state_after (deleteHistoryItem i b st)) = xs @ ys"
    if "distinct (map id' (history st))" "e \<in> set (history st)" "id' e = i" for e
    using filter_out_unique[OF that(1,2)] that(3) by (simp add: eq state_after_def)
  with eq st show ?thesis by blast
qed

theorem deleteHistoryItem_removes_witness:
  "plain (json_of_history (filter (\<lambda>item. id' item \<noteq> js ''a3f0'') (history shelf)))
   \<and> setItem (localStorage roomy) (js ''ece_career_history'')
       (JSON_stringify (json_of_history
          (filter (\<lambda>item. id' item \<noteq> js ''a3f0'') (history shelf))))
     = Inr (stored pair_text)
   \<and> history shelf = [example_item, earlier_item, oldest_item]
   \<and> deleteHistoryItem (js ''a3f0'') roomy shelf
       = (Returned, roomy\<lparr>localStorage := stored pair_text\<rparr>,
          shelf\<lparr>history := [example_item, oldest_item]\<rparr>)
   \<and> getItem (stored pair_text) (js ''ece_career_history'') = Some pair_text
   \<and> distinct (map id' (history shelf))
   \<and> earlier_item \<in> set (history shelf)
   \<and> id' earlier_item = js ''a3f0''
   \<and> history shelf = [example_item] @ earlier_item # [oldest_item]
   \<and> history (state_after (deleteHistoryItem (js ''a3f0'') roomy shelf))
       = [example_item] @ [oldest_item]"
proof -
  note f = shelf_without_earlier and h = history_shelf
  have p: "plain (json_of_history (filter (\<lambda>item. id' item \<noteq> js ''a3f0'') (history shelf)))"
    unfolding f by (rule pair_plain)
  have w: "setItem (localStorage roomy) (js ''ece_career_history'')
     (JSON_stringify (json_of_history
        (filter (\<lambda>item. id' item \<noteq> js ''a3f0'') (history shelf))))
     = Inr (stored pair_text)"
    unfolding f pair_stringify by (rule setItem_roomy[OF texts_fit(2)])
  note t = deleteHistoryItem_removes[OF p w]
  from t have a: "deleteHistoryItem (js ''a3f0'') roomy shelf
       = (Returned, roomy\<lparr>localStorage := stored pair_text\<rparr>,
          shelf\<lparr>history := [example_item, oldest_item]\<rparr>)"
    unfolding f by (rule conjunct1)
  from t have g: "getItem (stored pair_text) (js ''ece_career_history'') = Some pair_text"
    unfolding f pair_stringify by (rule conjunct2[THEN conjunct1])
  have d: "distinct (map id' (history shelf))"
    unfolding h by (simp add: item_ids)
  have m: "earlier_item \<in> set (history shelf)" unfolding h by simp
  have i: "id' earlier_item = js ''a3f0''" by (simp add: item_ids)
  have x: "history shelf = [example_item] @ earlier_item # [oldest_item]" unfolding h by simp
  from t d m i
  have "\<exists>xs ys. history shelf = xs @ earlier_item # ys
         \<and> history (state_after (deleteHistoryItem (js ''a3f0'') roomy shelf)) = xs @ ys"
    by blast
  then have e: "history (state_after (deleteHistoryItem (js ''a3f0'') roomy shelf))
       = [example_item] @ [oldest_item]"
    unfolding a by (simp add: state_after_def)
  from p w h a g d m i x e show ?thesis by (intro conjI)
qed

text \<open>
  Against C5 as it was stated: in a browser whose storage refuses the write, the delete
  throws, the entry with the given identifier is still in the list and nothing has been
  persisted.
\<close>

theorem deleteHistoryItem_refused:
  "earlier_item \<in> set (history shelf)
   \<and> id' earlier_item = js ''a3f0''
   \<and> deleteHistoryItem (js ''a3f0'') full shelf = (Threw QuotaExceededError, full, shelf)
   \<and> history (state_after (deleteHistoryItem (js ''a3f0'') full shelf))
       = [example_item, earlier_item, oldest_item]
   \<and> getItem (localStorage (browser_after (deleteHistoryItem (js ''a3f0'') full shelf)))
        (js ''ece_career_history'') = None"
proof -
  have a: "deleteHistoryItem (js ''a3f0'') full shelf = (Threw QuotaExceededError, full, shelf)"
    by (simp add: deleteHistoryItem_def saveToLocalStorage_refused[OF setItem_full])
  show ?thesis
    by (simp add: a getItem_full state_after_def browser_after_def history_shelf item_ids)
qed

subsection \<open>C6: save, then reload\<close>

text \<open>
  Claim C6. After a save that was performed (same conditions as for C4), a page that
  starts on the same storage and runs the loading effect from the initial state gets
  exactly the list that was saved: its first entry is equal to the saved entry, with the
  same identifier, title, date, profile fields and recommendation, and the entries after
  it are the earlier ones. The list that is saved is a plain value, as every list of the
  declared type is: no number and no property name made of digits in the recommendations.
\<close>

theorem save_then_reload:
  assumes "\<not> falsy (recommendation st)"
    and "\<not> list_all is_js_space (saveTitle st)"
    and "plain (json_of_history (newItem uuid now st # history st))"
    and "setItem (localStorage b) (js ''ece_career_history'')
           (JSON_stringify (json_of_history (newItem uuid now st # history st))) = Inr ls"
    and "localStorage b' = localStorage (browser_after (handleSave uuid now b st))"
  shows "loadHistory b' initial = Loaded b' (initial\<lparr>history := newItem uuid now st # history st\<rparr>)
       \<and> history (initial\<lparr>history := newItem uuid now st # history st\<rparr>)
            = history (state_after (handleSave uuid now b st))
       \<and> hd (history (initial\<lparr>history := newItem uuid now st # history st\<rparr>))
            = newItem uuid now st"
proof -
  note eq = handleSave_accepted[OF assms(1,2,4)]
  have "getItem ls (js ''ece_career_history'')
      = Some (JSON_stringify (json_of_history (newItem uuid now st # history st)))"
    using assms(4) by (rule getItem_setItem)
  with assms(5) have "getItem (localStorage b') (js ''ece_career_history'')
      = Some (JSON_stringify (json_of_history (newItem uuid now st # history st)))"
    by (simp add: eq browser_after_def)
  from loadHistory_stored[OF this assms(3)] show ?thesis
    by (simp add: eq state_after_def)
qed

theorem save_then_reload_witness:
  "\<not> falsy (recommendation busy)
   \<and> \<not> list_all is_js_space (saveTitle busy)
   \<and> plain (json_of_history
        (newItem (js ''7d1c'') (js ''Nov 3, 2026, 10:15 AM'') busy # history busy))
   \<and> setItem (localStorage roomy) (js ''ece_career_history'')
        (JSON_stringify (json_of_history
           (newItem (js ''7d1c'') (js ''Nov 3, 2026, 10:15 AM'') busy # history busy)))
       = Inr (stored shelf_text)
   \<and> localStorage (roomy\<lparr>localStorage := stored shelf_text\<rparr>)
       = localStorage (browser_after
           (handleSave (js ''7d1c'') (js ''Nov 3, 2026, 10:15 AM'') roomy busy))
   \<and> loadHistory (roomy\<lparr>localStorage := stored shelf_text\<rparr>) initial
       = Loaded (roomy\<lparr>localStorage := stored shelf_text\<rparr>)
           (initial\<lparr>history := [example_item, earlier_item, oldest_item]\<rparr>)
   \<and> HistoryItem.recommendation example_item = example_answer"
proof -
  note r = busy_truthy and h = history_busy and w = busy_write and p = busy_plain
  have s: "handleSave (js ''7d1c'') (js ''Nov 3, 2026, 10:15 AM'') roomy busy =
       (Returned, roomy\<lparr>localStorage := stored shelf_text\<rparr>,
        busy\<lparr>history := [example_item, earlier_item, oldest_item],
             isSaveModalOpen := False, saveTitle := []\<rparr>)"
    using handleSave_accepted[OF r busy_title w] unfolding busy_newItem h .
  have l: "localStorage (roomy\<lparr>localStorage := stored shelf_text\<rparr>)
       = localStorage (browser_after
           (handleSave (js ''7d1c'') (js ''Nov 3, 2026, 10:15 AM'') roomy busy))"
    by (simp add: s browser_after_def)
  from save_then_reload[OF r busy_title p w l]
  have a: "loadHistory (roomy\<lparr>localStorage := stored shelf_text\<rparr>) initial
       = Loaded (roomy\<lparr>localStorage := stored shelf_text\<rparr>)
           (initial\<lparr>history := [example_item, earlier_item, oldest_item]\<rparr>)"
    unfolding h busy_newItem by (rule conjunct1)
  have y: "HistoryItem.recommendation example_item = example_answer"
    by (simp add: example_item_def newItem_def example_state_def)
  from r busy_title p w l a y show ?thesis by (intro conjI)
qed

subsection \<open>C7: clear, twice\<close>

text \<open>
  Claim C7, as amended. When the user confirms and \<open>localStorage.setItem\<close> accepts the
  write of the empty collection, ``Clear All'' returns normally with the empty list;
  running the same handler again right away returns normally too, without an error, and
  changes nothing: the list is empty after both calls. (After the first call the button
  is no longer rendered.)
\<close>

theorem clearAll_twice:
  assumes "setItem (localStorage b) (js ''ece_career_history'') (js ''[]'') = Inr ls"
  shows "clearAll True b st = (Returned, b\<lparr>localStorage := ls\<rparr>, st\<lparr>history := []\<rparr>)
       \<and> history (state_after (clearAll True b st)) = []
       \<and> clearAll True (browser_after (clearAll True b st)) (state_after (clearAll True b st))
            = (Returned, browser_after (clearAll True b st), state_after (clearAll True b st))
       \<and> history (state_after (clearAll True (browser_after (clearAll True b st))
            (state_after (clearAll True b st)))) = []
       \<and> \<not> clearAll_rendered (state_after (clearAll True b st))"
proof -
  have 1: "clearAll True b st = (Returned, b\<lparr>localStorage := ls\<rparr>, st\<lparr>history := []\<rparr>)"
    using assms by (simp add: clearAll_def saveToLocalStorage_accepted stringify_empty_history)
  have "setItem ls (js ''ece_career_history'') (js ''[]'') = Inr ls"
    using assms by (rule setItem_again)
  then have 2: "clearAll True (b\<lparr>localStorage := ls\<rparr>) (st\<lparr>history := []\<rparr>)
      = (Returned, b\<lparr>localStorage := ls\<rparr>, st\<lparr>history := []\<rparr>)"
    by (simp add: clearAll_def saveToLocalStorage_def stringify_empty_history)
  show ?thesis
    by (simp add: 1 2 state_after_def browser_after_def clearAll_rendered_def)
qed

theorem clearAll_twice_witness:
  "setItem (localStorage roomy) (js ''ece_career_history'') (js ''[]'') = Inr (stored (js ''[]''))
   \<and> history shelf = [example_item, earlier_item, oldest_item]
   \<and> clearAll True roomy shelf
       = (Returned, roomy\<lparr>localStorage := stored (js ''[]'')\<rparr>, shelf\<lparr>history := []\<rparr>)
   \<and> clearAll True (roomy\<lparr>localStorage := stored (js ''[]'')\<rparr>) (shelf\<lparr>history := []\<rparr>)
       = (Returned, roomy\<lparr>localStorage := stored (js ''[]'')\<rparr>, shelf\<lparr>history := []\<rparr>)"
proof -
  have w: "setItem (localStorage roomy) (js ''ece_career_history'') (js ''[]'') = Inr (stored (js ''[]''))"
    by (rule setItem_roomy) simp
  note t = clearAll_twice[OF w, of shelf]
  from t have a: "clearAll True roomy shelf
       = (Returned, roomy\<lparr>localStorage := stored (js ''[]'')\<rparr>, shelf\<lparr>history := []\<rparr>)"
    by (rule conjunct1)
  from t have "clearAll True (browser_after (clearAll True roomy shelf))
        (state_after (clearAll True roomy shelf))
      = (Returned, browser_after (clearAll True roomy shelf),
         state_after (clearAll True roomy shelf))"
    by (elim conjE)
  then have b: "clearAll True (roomy\<lparr>localStorage := stored (js ''[]'')\<rparr>) (shelf\<lparr>history := []\<rparr>)
       = (Returned, roomy\<lparr>localStorage := stored (js ''[]'')\<rparr>, shelf\<lparr>history := []\<rparr>)"
    by (simp add: a state_after_def browser_after_def)
  from w history_shelf a b show ?thesis by (intro conjI)
qed

text \<open>
  Against C7 as it was stated: in a browser whose storage refuses the write, ``Clear All''
  throws and the list is not empty afterwards.
\<close>

theorem clearAll_refused:
  "clearAll True full shelf = (Threw QuotaExceededError, full, shelf)
   \<and> history (state_after (clearAll True full shelf)) = [example_item, earlier_item, oldest_item]
   \<and> history (state_after (clearAll True full shelf)) \<noteq> []"
proof -
  have a: "clearAll True full shelf = (Threw QuotaExceededError, full, shelf)"
    by (simp add: clearAll_def saveToLocalStorage_refused[OF setItem_full])
  show ?thesis by (simp add: a state_after_def history_shelf)
qed

subsection \<open>C8: \<open>scanResume\<close>\<close>

text \<open>
  Claim C8, as amended. \<open>scanResume\<close> behaves as the other operation does. When the
  provider call fails, the provider's own error comes out. When the call succeeds with a
  text that is not empty and not JSON, it logs and fails with the ``scan failed'' error.
  When that text is JSON, its value is returned unchecked: it is a complete
  \<open>ResumeData\<close>, three strings, whenever it conforms to the response schema that the
  request carries. The messages of the errors that the two operations throw at their
  parse sites differ, so the errors can be told apart.
\<close>

theorem scanResume_outcomes:
  "(\<forall>x. generateContent (scanResume_request d m) = Inl x \<longrightarrow>
        scanResume generateContent d m = ([], Inl (Rejected x)))
   \<and> (\<forall>response t. generateContent (scanResume_request d m) = Inr response
          \<and> text' response = Some t \<and> t \<noteq> [] \<and> JSON_parse t = None \<longrightarrow>
        scanResume generateContent d m
          = ([js ''Failed to parse scan response''],
             Inl (Error (js ''Could not scan the resume. Please try manual input.''))))
   \<and> (\<forall>response t v. generateContent (scanResume_request d m) = Inr response
          \<and> text' response = Some t \<and> t \<noteq> [] \<and> JSON_parse t = Some v \<longrightarrow>
        scanResume generateContent d m = ([], Inr v)
        \<and> (conforms (responseSchema (config (scanResume_request d m))) v \<longrightarrow> as_ResumeData v \<noteq> None))
   \<and> (\<forall>x y. snd (scanResume generateContent d m) = Inl (Error x)
          \<and> snd (getCareerRecommendations generateContent' e s i) = Inl (Error y) \<longrightarrow> x \<noteq> y)"
proof -
  have 1: "\<forall>x. generateContent (scanResume_request d m) = Inl x \<longrightarrow>
        scanResume generateContent d m = ([], Inl (Rejected x))"
    by (simp add: scanResume_def)
  have 2: "\<forall>response t. generateContent (scanResume_request d m) = Inr response
          \<and> text' response = Some t \<and> t \<noteq> [] \<and> JSON_parse t = None \<longrightarrow>
        scanResume generateContent d m
          = ([js ''Failed to parse scan response''],
             Inl (Error (js ''Could not scan the resume. Please try manual input.'')))"
    by (auto simp: scanResume_def or_else_text)
  have 3: "\<forall>response t v. generateContent (scanResume_request d m) = Inr response
          \<and> text' response = Some t \<and> t \<noteq> [] \<and> JSON_parse t = Some v \<longrightarrow>
        scanResume generateContent d m = ([], Inr v)
        \<and> (conforms (responseSchema (config (scanResume_request d m))) v \<longrightarrow> as_ResumeData v \<noteq> None)"
    by (auto simp: scanResume_def or_else_text scanResume_request_def conforms_ResumeData)
  have 4: "\<forall>x y. snd (scanResume generateContent d m) = Inl (Error x)
          \<and> snd (getCareerRecommendations generateContent' e s i) = Inl (Error y) \<longrightarrow> x \<noteq> y"
    by (auto simp: scanResume_def getCareerRecommendations_def split: sum.splits option.splits)
  from 1 2 3 4 show ?thesis by (intro conjI)
qed

theorem scanResume_outcomes_witness:
  "(unreachable (scanResume_request (js ''JVBERi0='') (js ''application/pdf''))
       = Inl (js ''fetch failed'')
     \<and> scanResume unreachable (js ''JVBERi0='') (js ''application/pdf'')
       = ([], Inl (Rejected (js ''fetch failed''))))
   \<and> (garbled (scanResume_request (js ''JVBERi0='') (js ''application/pdf''))
       = Inr \<lparr>text' = Some (js ''Sorry, I cannot'')\<rparr>
     \<and> text' \<lparr>text' = Some (js ''Sorry, I cannot'')\<rparr> = Some (js ''Sorry, I cannot'')
     \<and> js ''Sorry, I cannot'' \<noteq> []
     \<and> JSON_parse (js ''Sorry, I cannot'') = None
     \<and> scanResume garbled (js ''JVBERi0='') (js ''application/pdf'')
       = ([js ''Failed to parse scan response''],
          Inl (Error (js ''Could not scan the resume. Please try manual input.''))))
   \<and> (reader (scanResume_request (js ''JVBERi0='') (js ''application/pdf''))
       = Inr \<lparr>text' = Some (JSON_stringify (json_of_ResumeData example_resume))\<rparr>
     \<and> JSON_stringify (json_of_ResumeData example_resume) \<noteq> []
     \<and> JSON_parse (JSON_stringify (json_of_ResumeData example_resume))
       = Some (json_of_ResumeData example_resume)
     \<and> conforms (responseSchema (config (scanResume_request (js ''JVBERi0='') (js ''application/pdf''))))
          (json_of_ResumeData example_resume)
     \<and> scanResume reader (js ''JVBERi0='') (js ''application/pdf'')
       = ([], Inr (json_of_ResumeData example_resume))
     \<and> as_ResumeData (json_of_ResumeData example_resume) \<noteq> None)
   \<and> (snd (scanResume garbled (js ''JVBERi0='') (js ''application/pdf''))
       = Inl (Error (js ''Could not scan the resume. Please try manual input.''))
     \<and> snd (getCareerRecommendations garbled (js ''B.Tech'') (js ''Verilog'') (js ''VLSI''))
       = Inl (Error (js ''Could not generate recommendations. Please try again.''))
     \<and> js ''Could not scan the resume. Please try manual input.''
       \<noteq> js ''Could not generate recommendations. Please try again.'')"
proof -
  have g: "garbled (scanResume_request (js ''JVBERi0='') (js ''application/pdf''))
       = Inr \<lparr>text' = Some (js ''Sorry, I cannot'')\<rparr>"
    by (simp add: garbled_def)
  have gt: "text' \<lparr>text' = Some (js ''Sorry, I cannot'')\<rparr> = Some (js ''Sorry, I cannot'')"
    by simp
  note t = scanResume_outcomes[of garbled "js ''JVBERi0=''" "js ''application/pdf''"
      garbled "js ''B.Tech''" "js ''Verilog''" "js ''VLSI''"]
  from t g gt garbled_nonempty garbled_text
  have a: "scanResume garbled (js ''JVBERi0='') (js ''application/pdf'')
       = ([js ''Failed to parse scan response''],
          Inl (Error (js ''Could not scan the resume. Please try manual input.'')))"
    by blast
  have r: "reader (scanResume_request (js ''JVBERi0='') (js ''application/pdf''))
       = Inr \<lparr>text' = Some (JSON_stringify (json_of_ResumeData example_resume))\<rparr>"
    by (simp add: reader_def)
  have rt: "text' \<lparr>text' = Some (JSON_stringify (json_of_ResumeData example_resume))\<rparr>
      = Some (JSON_stringify (json_of_ResumeData example_resume))"
    by simp
  have rn: "JSON_stringify (json_of_ResumeData example_resume) \<noteq> []"
    by (simp add: JSON_stringify_nonempty)
  have q: "JSON_parse (JSON_stringify (json_of_ResumeData example_resume))
       = Some (json_of_ResumeData example_resume)"
    by (simp add: JSON_parse_stringify)
  have c: "conforms (responseSchema (config (scanResume_request (js ''JVBERi0='') (js ''application/pdf''))))
          (json_of_ResumeData example_resume)"
    by (simp add: scanResume_request_def conforms_json_of_ResumeData)
  from scanResume_outcomes[of reader "js ''JVBERi0=''" "js ''application/pdf''"] r rt rn q
  have b0: "scanResume reader (js ''JVBERi0='') (js ''application/pdf'')
       = ([], Inr (json_of_ResumeData example_resume))
     \<and> (conforms (responseSchema (config (scanResume_request (js ''JVBERi0='') (js ''application/pdf''))))
          (json_of_ResumeData example_resume) \<longrightarrow> as_ResumeData (json_of_ResumeData example_resume) \<noteq> None)"
    by blast
  from b0 have b1: "scanResume reader (js ''JVBERi0='') (js ''application/pdf'')
       = ([], Inr (json_of_ResumeData example_resume))"
    by (rule conjunct1)
  from b0 c have b2: "as_ResumeData (json_of_ResumeData example_resume) \<noteq> None"
    by blast
  have e1: "snd (scanResume garbled (js ''JVBERi0='') (js ''application/pdf''))
       = Inl (Error (js ''Could not scan the resume. Please try manual input.''))"
    by (simp add: a)
  have e2: "snd (getCareerRecommendations garbled (js ''B.Tech'') (js ''Verilog'') (js ''VLSI''))
       = Inl (Error (js ''Could not generate recommendations. Please try again.''))"
    by (simp add: getCareerRecommendations_garbled)
  from t e1 e2 have e3: "js ''Could not scan the resume. Please try manual input.''
       \<noteq> js ''Could not generate recommendations. Please try again.''"
    by blast
  have u: "unreachable (scanResume_request (js ''JVBERi0='') (js ''application/pdf''))
       = Inl (js ''fetch failed'')"
    by (simp add: unreachable_def)
  from scanResume_outcomes[of unreachable "js ''JVBERi0=''" "js ''application/pdf''"] u
  have u1: "scanResume unreachable (js ''JVBERi0='') (js ''application/pdf'')
       = ([], Inl (Rejected (js ''fetch failed'')))"
    by blast
  from u u1 g gt garbled_nonempty garbled_text a r rn q c b1 b2 e1 e2 e3 show ?thesis
    by (intro conjI)
qed

theorem scanResume_incomplete:
  "scanResume silent (js ''JVBERi0='') (js ''application/pdf'') = ([], Inr (JObj []))
   \<and> field (JObj []) (js ''education'') = None
   \<and> field (JObj []) (js ''skills'') = None
   \<and> field (JObj []) (js ''interests'') = None
   \<and> as_ResumeData (JObj []) = None
   \<and> scanResume partial_answer (js ''JVBERi0='') (js ''application/pdf'')
       = ([], Inr (JObj [(js ''summary'', JStr (js ''Go on.''))]))
   \<and> field (JObj [(js ''summary'', JStr (js ''Go on.''))]) (js ''education'') = None
   \<and> as_ResumeData (JObj [(js ''summary'', JStr (js ''Go on.''))]) = None"
proof -
  have a: "scanResume silent (js ''JVBERi0='') (js ''application/pdf'') = ([], Inr (JObj []))"
    by (simp add: scanResume_def silent_def or_else_def empty_object)
  have b: "as_ResumeData (JObj []) = None" by (simp add: as_ResumeData_def)
  have c: "as_ResumeData (JObj [(js ''summary'', JStr (js ''Go on.''))]) = None"
    by (simp add: as_ResumeData_def)
  from a b c scanResume_partial_answer show ?thesis by simp
qed

subsection \<open>C9: the guard of save\<close>

text \<open>
  Claim C9. \<open>handleSave\<close> returns at once when there is no current recommendation (the
  state holds \<open>null\<close>, or another value that \<open>!recommendation\<close> takes for none) or when
  the title is empty or has only whitespace in it: the handler returns normally and both
  the browser (with its storage) and the whole component state, the history list
  included, are exactly as before, so no entry has been created.
\<close>

theorem handleSave_guard:
  assumes "falsy (recommendation st) \<or> list_all is_js_space (saveTitle st)"
  shows "handleSave uuid now b st = (Returned, b, st)"
  using assms by (auto simp: handleSave_def trim_empty_iff)

theorem handleSave_guard_witness:
  "list_all is_js_space (saveTitle (busy\<lparr>saveTitle := js ''  ''\<rparr>))
   \<and> handleSave (js ''7d1c'') (js ''Nov 3, 2026, 10:15 AM'') roomy (busy\<lparr>saveTitle := js ''  ''\<rparr>)
       = (Returned, roomy, busy\<lparr>saveTitle := js ''  ''\<rparr>)
   \<and> recommendation (busy\<lparr>recommendation := JNull\<rparr>) = JNull
   \<and> falsy (recommendation (busy\<lparr>recommendation := JNull\<rparr>))
   \<and> handleSave (js ''7d1c'') (js ''Nov 3, 2026, 10:15 AM'') roomy (busy\<lparr>recommendation := JNull\<rparr>)
       = (Returned, roomy, busy\<lparr>recommendation := JNull\<rparr>)"
proof -
  have h: "list_all is_js_space (saveTitle (busy\<lparr>saveTitle := js ''  ''\<rparr>))"
    by (simp add: blank)
  then have "falsy (recommendation (busy\<lparr>saveTitle := js ''  ''\<rparr>))
      \<or> list_all is_js_space (saveTitle (busy\<lparr>saveTitle := js ''  ''\<rparr>))"
    by (rule disjI2)
  from handleSave_guard[OF this]
  have a: "handleSave (js ''7d1c'') (js ''Nov 3, 2026, 10:15 AM'') roomy (busy\<lparr>saveTitle := js ''  ''\<rparr>)
       = (Returned, roomy, busy\<lparr>saveTitle := js ''  ''\<rparr>)" .
  have n: "recommendation (busy\<lparr>recommendation := JNull\<rparr>) = JNull" by simp
  have f: "falsy (recommendation (busy\<lparr>recommendation := JNull\<rparr>))" by simp
  then have "falsy (recommendation (busy\<lparr>recommendation := JNull\<rparr>))
      \<or> list_all is_js_space (saveTitle (busy\<lparr>recommendation := JNull\<rparr>))"
    by (rule disjI1)
  from handleSave_guard[OF this]
  have b: "handleSave (js ''7d1c'') (js ''Nov 3, 2026, 10:15 AM'') roomy (busy\<lparr>recommendation := JNull\<rparr>)
       = (Returned, roomy, busy\<lparr>recommendation := JNull\<rparr>)" .
  from h a n f b show ?thesis by (intro conjI)
qed

subsection \<open>C10: delete with an identifier that is not there\<close>

text \<open>
  Claim C10. When no entry has the identifier given to \<open>deleteHistoryItem\<close>, the
  history list after the call is the list before it, whether the write to storage was
  accepted or not; and in every case an entry whose identifier differs from the given one
  is still in the list afterwards.
\<close>

theorem deleteHistoryItem_absent:
  "(i \<notin> id' ` set (history st) \<longrightarrow>
      history (state_after (deleteHistoryItem i b st)) = history st)
   \<and> (\<forall>e \<in> set (history st). id' e \<noteq> i \<longrightarrow>
        e \<in> set (history (state_after (deleteHistoryItem i b st))))"
proof -
  have "i \<notin> id' ` set (history st) \<Longrightarrow> filter (\<lambda>item. id' item \<noteq> i) (history st) = history st"
    by (induction "history st") (auto simp: filter_id_conv)
  then show ?thesis
    by (auto simp: deleteHistoryItem_def saveToLocalStorage_def state_after_def split: sum.splits)
qed

theorem deleteHistoryItem_absent_witness:
  "js ''0000'' \<notin> id' ` set (history shelf)
   \<and> history (state_after (deleteHistoryItem (js ''0000'') roomy shelf))
       = [example_item, earlier_item, oldest_item]
   \<and> deleteHistoryItem (js ''0000'') roomy shelf
       = (Returned, roomy\<lparr>localStorage := stored shelf_text\<rparr>, shelf)
   \<and> earlier_item \<in> set (history shelf)
   \<and> id' earlier_item \<noteq> js ''7d1c''
   \<and> earlier_item \<in> set (history (state_after (deleteHistoryItem (js ''7d1c'') roomy shelf)))"
proof -
  have a: "js ''0000'' \<notin> id' ` set (history shelf)"
    by (simp add: history_shelf item_ids)
  from deleteHistoryItem_absent[of "js ''0000''" shelf roomy] a
  have b: "history (state_after (deleteHistoryItem (js ''0000'') roomy shelf))
       = [example_item, earlier_item, oldest_item]"
    by (simp add: history_shelf)
  have f: "filter (\<lambda>item. id' item \<noteq> js ''0000'') (history shelf)
       = [example_item, earlier_item, oldest_item]"
    by (simp add: history_shelf item_ids)
  have "deleteHistoryItem (js ''0000'') roomy shelf
       = (Returned, roomy\<lparr>localStorage := stored shelf_text\<rparr>,
          shelf\<lparr>history := [example_item, earlier_item, oldest_item]\<rparr>)"
    unfolding deleteHistoryItem_def f
    by (rule saveToLocalStorage_accepted) (simp add: shelf_stringify setItem_roomy texts_fit)
  then have c: "deleteHistoryItem (js ''0000'') roomy shelf
       = (Returned, roomy\<lparr>localStorage := stored shelf_text\<rparr>, shelf)"
    by (simp add: shelf_def)
  have d: "earlier_item \<in> set (history shelf)" by (simp add: history_shelf)
  have e: "id' earlier_item \<noteq> js ''7d1c''" by (simp add: item_ids)
  from deleteHistoryItem_absent[of "js ''7d1c''" shelf roomy] d e
  have g: "earlier_item \<in> set (history (state_after (deleteHistoryItem (js ''7d1c'') roomy shelf)))"
    by blast
  from a b c d e g show ?thesis by (intro conjI)
qed

end
